theory Spec2Isabelle
  imports Complex_Main "HOL-Library.AList"
begin

unbundle bit_operations_syntax

section \<open>JavaScript values\<close>

text \<open>
  The module \<^verbatim>\<open>lib/apiVerifier.js\<close> works on untyped JavaScript values. The values that
  reach it from a request or from a parameter specification are modelled by \<open>jsval\<close>:
  the primitive values and arrays, nested as deep as they come. Plain objects as raw values
  of a request are left out. Numbers are IEEE doubles in JavaScript; here a finite number
  is the exact rational it denotes (rounding, overflow and the sign of zero are not
  represented), next to the three special values. Strings are lists of code units;
  \<open>char\<close> covers the code units below 256.
\<close>

datatype jsnum = NaN | PInf | NInf | Fin rat

datatype jsval = Undefined | Null | Bool bool | Num jsnum | Str string | Arr "jsval list"

text \<open>
  A thrown exception: \<open>Error m\<close> is \<^verbatim>\<open>new Error(m)\<close> raised by the module itself,
  \<open>TypeError m\<close> is raised by the engine (message texts of the engine are indicative).
\<close>

datatype error = Error string | TypeError string

fun message :: "error \<Rightarrow> string" where
  "message (Error m) = m"
| "message (TypeError m) = m"

fun truthy :: "jsval \<Rightarrow> bool" where
  "truthy Undefined = False"
| "truthy Null = False"
| "truthy (Bool b) = b"
| "truthy (Num n) = (n \<noteq> NaN \<and> n \<noteq> Fin 0)"
| "truthy (Str s) = (s \<noteq> [])"
| "truthy (Arr vs) = True"

text \<open>\<^verbatim>\<open>Array.isArray(value)\<close>\<close>

fun isArray :: "jsval \<Rightarrow> bool" where
  "isArray (Arr vs) = True"
| "isArray v = False"

text \<open>The property read \<^verbatim>\<open>value.length\<close> on a value that is neither undefined nor null.\<close>

fun length_of :: "jsval \<Rightarrow> jsval" where
  "length_of (Str s) = Num (Fin (of_nat (length s)))"
| "length_of (Arr vs) = Num (Fin (of_nat (length vs)))"
| "length_of v = Undefined"

definition isNaN :: "jsnum \<Rightarrow> bool" where
  "isNaN n = (n = NaN)"

section \<open>String built-ins\<close>

text \<open>White space and line terminators, as removed by \<^verbatim>\<open>trim\<close> and skipped by the number parsers.\<close>

definition is_ws :: "char \<Rightarrow> bool" where
  "is_ws c = ((of_char c :: nat) \<in> {9, 10, 11, 12, 13, 32, 160})"

definition trim :: "string \<Rightarrow> string" where
  "trim s = rev (dropWhile is_ws (rev (dropWhile is_ws s)))"

definition lower_char :: "char \<Rightarrow> char" where
  "lower_char c =
     (let n = (of_char c :: nat)
      in if (65 \<le> n \<and> n \<le> 90) \<or> (192 \<le> n \<and> n \<le> 222 \<and> n \<noteq> 215)
         then char_of (n + 32) else c)"

definition toLowerCase :: "string \<Rightarrow> string" where
  "toLowerCase s = map lower_char s"

text \<open>\<^verbatim>\<open>s.split(sep)\<close> for a one-character separator; the result is never empty.\<close>

fun split :: "char \<Rightarrow> string \<Rightarrow> string list" where
  "split sep [] = [[]]"
| "split sep (c # cs) =
     (if c = sep then [] # split sep cs
      else (case split sep cs of [] \<Rightarrow> [[c]] | p # ps \<Rightarrow> (c # p) # ps))"

section \<open>Number built-ins\<close>

definition is_digit :: "char \<Rightarrow> bool" where
  "is_digit c = (48 \<le> (of_char c :: nat) \<and> (of_char c :: nat) \<le> 57)"

definition digit_val :: "char \<Rightarrow> nat" where
  "digit_val c = of_char c - 48"

definition is_hex :: "char \<Rightarrow> bool" where
  "is_hex c =
     (let n = (of_char c :: nat)
      in (48 \<le> n \<and> n \<le> 57) \<or> (65 \<le> n \<and> n \<le> 70) \<or> (97 \<le> n \<and> n \<le> 102))"

definition hex_val :: "char \<Rightarrow> nat" where
  "hex_val c =
     (let n = (of_char c :: nat)
      in if n \<le> 57 then n - 48 else if n \<le> 70 then n - 55 else n - 87)"

definition digits_value :: "nat \<Rightarrow> (char \<Rightarrow> nat) \<Rightarrow> string \<Rightarrow> nat" where
  "digits_value radix dv ds = foldl (\<lambda>a c. radix * a + dv c) 0 ds"

fun strip_sign :: "string \<Rightarrow> bool \<times> string" where
  "strip_sign [] = (False, [])"
| "strip_sign (c # r) =
     (if c = CHR ''-'' then (True, r) else if c = CHR ''+'' then (False, r) else (False, c # r))"

definition signed :: "bool \<Rightarrow> rat \<Rightarrow> rat" where
  "signed neg q = (if neg then - q else q)"

text \<open>
  \<^verbatim>\<open>parseInt(string)\<close> without a radix: leading white space is skipped, a sign is read, a
  prefix \<^verbatim>\<open>0x\<close> selects radix 16, and the longest run of digits is the result; no digit
  gives \<open>NaN\<close>.
\<close>

definition parseInt_str :: "string \<Rightarrow> jsnum" where
  "parseInt_str s =
     (let (neg, t) = strip_sign (dropWhile is_ws s);
          hex = (take 2 t = ''0x'' \<or> take 2 t = ''0X'');
          u = (if hex then drop 2 t else t);
          z = takeWhile (if hex then is_hex else is_digit) u;
          n = (if hex then digits_value 16 hex_val z else digits_value 10 digit_val z)
      in if z = [] then NaN else Fin (signed neg (of_nat n)))"

text \<open>
  An exponent part \<^verbatim>\<open>e\<close>, optional sign, digits at the front of the string: its value and
  the rest behind it. An incomplete exponent is not consumed.
\<close>

definition parse_exponent :: "string \<Rightarrow> int \<times> string" where
  "parse_exponent r =
     (case r of
        [] \<Rightarrow> (0, r)
      | c # r' \<Rightarrow>
          if c = CHR ''e'' \<or> c = CHR ''E''
          then (let (neg, r'') = strip_sign r'; ds = takeWhile is_digit r''
                in if ds = [] then (0, r)
                   else (if neg then - int (digits_value 10 digit_val ds)
                         else int (digits_value 10 digit_val ds),
                         dropWhile is_digit r''))
          else (0, r))"

text \<open>
  The longest prefix that is a decimal literal (\<^verbatim>\<open>StrDecimalLiteral\<close>): its value and the
  rest of the string, or \<open>None\<close> when no prefix is one.
\<close>

definition parse_decimal :: "string \<Rightarrow> (jsnum \<times> string) option" where
  "parse_decimal s =
     (let (neg, u) = strip_sign s
      in if take 8 u = ''Infinity'' then Some (if neg then NInf else PInf, drop 8 u)
         else
           (let ip = takeWhile is_digit u;
                r1 = dropWhile is_digit u;
                (fp, r2) =
                  (case r1 of
                     [] \<Rightarrow> ([], r1)
                   | c # r \<Rightarrow>
                       if c = CHR ''.'' then (takeWhile is_digit r, dropWhile is_digit r)
                       else ([], r1))
            in if ip = [] \<and> fp = [] then None
               else
                 (let (ex, r3) = parse_exponent r2;
                      m = of_nat (digits_value 10 digit_val (ip @ fp))
                            * 10 powi (ex - int (length fp))
                  in Some (Fin (signed neg m), r3))))"

definition parseFloat_str :: "string \<Rightarrow> jsnum" where
  "parseFloat_str s =
     (case parse_decimal (dropWhile is_ws s) of None \<Rightarrow> NaN | Some (n, r) \<Rightarrow> n)"

text \<open>
  \<^verbatim>\<open>parseFloat(value)\<close> converts its argument to a string first. A number prints to a
  literal that reads back as the same number. An array prints its elements joined by
  commas, undefined and null elements as the empty string, so only the first element is
  read.
\<close>

fun parseFloat :: "jsval \<Rightarrow> jsnum" where
  "parseFloat (Str s) = parseFloat_str s"
| "parseFloat (Num n) = n"
| "parseFloat Undefined = NaN"
| "parseFloat Null = NaN"
| "parseFloat (Bool b) = NaN"
| "parseFloat (Arr []) = NaN"
| "parseFloat (Arr (Undefined # vs)) = NaN"
| "parseFloat (Arr (Null # vs)) = NaN"
| "parseFloat (Arr (v # vs)) = parseFloat v"

text \<open>The first significant decimal digit of a positive integer and of a fraction \<open>a / b\<close>.\<close>

fun lead_nat :: "nat \<Rightarrow> nat" where
  "lead_nat n = (if n < 10 then n else lead_nat (n div 10))"

function lead_frac :: "nat \<Rightarrow> nat \<Rightarrow> nat" where
  "lead_frac a b = (if a = 0 \<or> b \<le> a then a div b else lead_frac (10 * a) b)"
  by pat_completeness auto
termination
  by (relation "measure (\<lambda>(a, b). b - a)") auto

definition truncate :: "rat \<Rightarrow> int" where
  "truncate q = (if 0 \<le> q then \<lfloor>q\<rfloor> else \<lceil>q\<rceil>)"

text \<open>
  \<^verbatim>\<open>parseInt\<close> of a number reads the printed number: plain decimal notation from
  \<open>10\<^sup>-\<^sup>6\<close> up to \<open>10\<^sup>2\<^sup>1\<close>, where the digits before the point are the truncation,
  and exponent notation outside that range, where only the leading digit is read.
\<close>

definition parseInt_num :: "jsnum \<Rightarrow> jsnum" where
  "parseInt_num n =
     (case n of
        Fin q \<Rightarrow>
          if q = 0 then Fin 0
          else if 1 / 10 ^ 6 \<le> \<bar>q\<bar> \<and> \<bar>q\<bar> < 10 ^ 21 then Fin (of_int (truncate q))
          else if 10 ^ 21 \<le> \<bar>q\<bar> then Fin (signed (q < 0) (of_nat (lead_nat (nat \<lfloor>\<bar>q\<bar>\<rfloor>))))
          else (let (a, b) = quotient_of \<bar>q\<bar>
                in Fin (signed (q < 0) (of_nat (lead_frac (nat a) (nat b)))))
      | _ \<Rightarrow> NaN)"

fun parseInt :: "jsval \<Rightarrow> jsnum" where
  "parseInt (Str s) = parseInt_str s"
| "parseInt (Num n) = parseInt_num n"
| "parseInt Undefined = NaN"
| "parseInt Null = NaN"
| "parseInt (Bool b) = NaN"
| "parseInt (Arr []) = NaN"
| "parseInt (Arr (Undefined # vs)) = NaN"
| "parseInt (Arr (Null # vs)) = NaN"
| "parseInt (Arr (v # vs)) = parseInt v"

section \<open>The value coercer\<close>

text \<open>Sequencing of the results of \<^verbatim>\<open>Array.prototype.map\<close>: the first exception propagates.\<close>

fun collect :: "(error + 'a) list \<Rightarrow> error + 'a list" where
  "collect [] = Inr []"
| "collect (r # rs) =
     (case r of
        Inl e \<Rightarrow> Inl e
      | Inr v \<Rightarrow> (case collect rs of Inl e \<Rightarrow> Inl e | Inr vs \<Rightarrow> Inr (v # vs)))"

fun map_sum_r :: "('a \<Rightarrow> 'b) \<Rightarrow> error + 'a \<Rightarrow> error + 'b" where
  "map_sum_r f (Inl e) = Inl e"
| "map_sum_r f (Inr v) = Inr (f v)"

text \<open>
  The operand of the inner switch of the boolean case,
  \<^verbatim>\<open>value && value.trim && value.trim().toLowerCase()\<close>: only a string has \<^verbatim>\<open>trim\<close>.
\<close>

fun boolean_key :: "jsval \<Rightarrow> jsval" where
  "boolean_key (Str s) = (if s = [] then Str s else Str (toLowerCase (trim s)))"
| "boolean_key v = (if truthy v then Undefined else v)"

text \<open>The \<^verbatim>\<open>switch (type)\<close> of \<^verbatim>\<open>parseValue\<close>, reached with a value that is not an array.\<close>

definition parseValue_switch :: "string \<Rightarrow> jsval \<Rightarrow> error + jsval" where
  "parseValue_switch type value =
     (if type \<in> {''*'', ''any'', ''string''}
      then Inr (if truthy value \<and> truthy (length_of value) then value else Undefined)
      else if type \<in> {''bool'', ''boolean''}
      then (case value of
              Bool b \<Rightarrow> Inr value
            | _ \<Rightarrow>
                if boolean_key value \<in> {Str ''true'', Str ''t'', Str ''yes'', Str ''y'', Str ''1''}
                then Inr (Bool True)
                else if boolean_key value
                          \<in> {Str ''false'', Str ''f'', Str ''no'', Str ''n'', Str ''0''}
                then Inr (Bool False)
                else Inr Undefined)
      else if type \<in> {''number'', ''float'', ''double''}
      then (let n = parseFloat value in Inr (if isNaN n then Undefined else Num n))
      else if type \<in> {''integer'', ''short''}
      then (let n = parseInt value in Inr (if isNaN n then Undefined else Num n))
      else Inl (Error (''Invalid type defined for parameter: '' @ type)))"

function parseValue :: "string \<Rightarrow> jsval \<Rightarrow> bool \<Rightarrow> error + jsval" where
  "parseValue type value array =
     (case value of
        Arr vs \<Rightarrow> map_sum_r Arr (collect (map (\<lambda>entry. parseValue type entry False) vs))
      | _ \<Rightarrow>
          if truthy value \<and> array
          then (case value of
                  Str s \<Rightarrow>
                    map_sum_r Arr
                      (collect (map (\<lambda>entry. parseValue type (Str entry) False) (split CHR '','' s)))
                | _ \<Rightarrow> Inl (TypeError ''value.split is not a function''))
          else parseValue_switch type value)"
  by pat_completeness auto
termination
  by (relation "measure (\<lambda>(t, v, a). 2 * size v + (if a then 1 else 0))")
     (auto simp: termination_simp less_Suc_eq_le intro: size_list_estimation')

declare parseValue.simps [simp del]

section \<open>Conversion to numbers\<close>

text \<open>
  \<^verbatim>\<open>Number(string)\<close>: the whole trimmed string must be a numeric literal; the empty
  string is zero. Literals with a radix prefix take no sign.
\<close>

definition radix_literal :: "nat \<Rightarrow> (char \<Rightarrow> bool) \<Rightarrow> string \<Rightarrow> jsnum" where
  "radix_literal radix ok ds =
     (if ds \<noteq> [] \<and> list_all ok ds then Fin (of_nat (digits_value radix hex_val ds)) else NaN)"

definition StringToNumber :: "string \<Rightarrow> jsnum" where
  "StringToNumber s =
     (let t = trim s
      in if t = [] then Fin 0
         else if take 2 t = ''0x'' \<or> take 2 t = ''0X'' then radix_literal 16 is_hex (drop 2 t)
         else if take 2 t = ''0o'' \<or> take 2 t = ''0O''
         then radix_literal 8 (\<lambda>c. is_digit c \<and> (of_char c :: nat) \<le> 55) (drop 2 t)
         else if take 2 t = ''0b'' \<or> take 2 t = ''0B''
         then radix_literal 2 (\<lambda>c. is_digit c \<and> (of_char c :: nat) \<le> 49) (drop 2 t)
         else (case parse_decimal t of
                 None \<Rightarrow> NaN
               | Some (n, r) \<Rightarrow> if r = [] then n else NaN))"

text \<open>
  \<^verbatim>\<open>ToNumber\<close>. An array converts through its printed form: no element is the empty
  string, one element is that element printed (undefined and null print empty), and more
  elements print with a comma, which no numeric literal contains.
\<close>

fun ToNumber :: "jsval \<Rightarrow> jsnum" where
  "ToNumber Undefined = NaN"
| "ToNumber Null = Fin 0"
| "ToNumber (Bool b) = Fin (if b then 1 else 0)"
| "ToNumber (Num n) = n"
| "ToNumber (Str s) = StringToNumber s"
| "ToNumber (Arr []) = Fin 0"
| "ToNumber (Arr [Undefined]) = Fin 0"
| "ToNumber (Arr [Null]) = Fin 0"
| "ToNumber (Arr [Bool b]) = NaN"
| "ToNumber (Arr [Num n]) = n"
| "ToNumber (Arr [Str s]) = StringToNumber s"
| "ToNumber (Arr [Arr vs]) = ToNumber (Arr vs)"
| "ToNumber (Arr (v # w # vs)) = NaN"

text \<open>\<^verbatim>\<open>ToInt32\<close>: truncate, wrap modulo \<open>2\<^sup>3\<^sup>2\<close> into the signed range.\<close>

definition ToInt32 :: "jsnum \<Rightarrow> int" where
  "ToInt32 n =
     (case n of
        Fin q \<Rightarrow> (let m = truncate q mod 2 ^ 32 in if 2 ^ 31 \<le> m then m - 2 ^ 32 else m)
      | _ \<Rightarrow> 0)"

text \<open>The comparison \<^verbatim>\<open>a < b\<close> of two numbers; it is false when either is \<open>NaN\<close>.\<close>

fun num_less :: "jsnum \<Rightarrow> jsnum \<Rightarrow> bool" where
  "num_less NaN b = False"
| "num_less a NaN = False"
| "num_less (Fin a) (Fin b) = (a < b)"
| "num_less a NInf = False"
| "num_less PInf b = False"
| "num_less a PInf = True"
| "num_less NInf b = True"

text \<open>\<^verbatim>\<open>a > b\<close> and \<^verbatim>\<open>a < b\<close> where \<open>b\<close> is a number: \<open>a\<close> is converted to a number.\<close>

definition js_gt :: "jsval \<Rightarrow> jsnum \<Rightarrow> bool" where
  "js_gt a b = num_less b (ToNumber a)"

definition js_lt :: "jsval \<Rightarrow> jsnum \<Rightarrow> bool" where
  "js_lt a b = num_less (ToNumber a) b"

section \<open>Objects\<close>

text \<open>
  A plain object is the list of its own properties in enumeration order. The property read
  \<^verbatim>\<open>obj[key]\<close> of an own property is \<open>get\<close>, which gives undefined for a missing key;
  the assignment \<^verbatim>\<open>obj[key] = v\<close> is \<open>AList.update\<close>, which keeps the place of an
  existing key and appends a new one (the special place of array-index keys in the
  enumeration order is not represented). A loop \<^verbatim>\<open>for (key in obj)\<close> runs over the keys of
  the list and reads \<^verbatim>\<open>obj[key]\<close>, as the source does.
\<close>

definition get :: "(string \<times> jsval) list \<Rightarrow> string \<Rightarrow> jsval" where
  "get obj key = (case map_of obj key of None \<Rightarrow> Undefined | Some v \<Rightarrow> v)"

text \<open>
  Every plain object inherits the properties of \<^verbatim>\<open>Object.prototype\<close>: a read of one of
  these names on an object without an own property of that name gives a function (an object
  for \<^verbatim>\<open>__proto__\<close>), never undefined. \<open>reads_undefined\<close> is the test
  \<^verbatim>\<open>obj[key] === undefined\<close> on a plain object.
\<close>

definition Object_prototype :: "string list" where
  "Object_prototype =
     [''constructor'', ''__defineGetter__'', ''__defineSetter__'', ''hasOwnProperty'',
      ''__lookupGetter__'', ''__lookupSetter__'', ''isPrototypeOf'', ''propertyIsEnumerable'',
      ''toString'', ''valueOf'', ''__proto__'', ''toLocaleString'']"

definition reads_undefined :: "(string \<times> jsval) list \<Rightarrow> string \<Rightarrow> bool" where
  "reads_undefined obj key =
     (case map_of obj key of
        Some v \<Rightarrow> v = Undefined
      | None \<Rightarrow> key \<notin> set Object_prototype)"

text \<open>
  A callback slot holds a function object, identified by a number, or any other value
  (undefined when the callback is not set).
\<close>

datatype hookval = Fn nat | Val jsval

fun truthy_hook :: "hookval \<Rightarrow> bool" where
  "truthy_hook (Fn f) = True"
| "truthy_hook (Val v) = truthy v"

text \<open>\<^verbatim>\<open>a || b\<close>\<close>

definition js_or :: "hookval \<Rightarrow> hookval \<Rightarrow> hookval" where
  "js_or a b = (if truthy_hook a then a else b)"

text \<open>
  \<^verbatim>\<open>a | b\<close>: both operands are converted by \<^verbatim>\<open>ToInt32\<close>; a function object converts to
  \<open>NaN\<close> and so to 0.
\<close>

fun hook_ToNumber :: "hookval \<Rightarrow> jsnum" where
  "hook_ToNumber (Fn f) = NaN"
| "hook_ToNumber (Val v) = ToNumber v"

definition js_bitor :: "hookval \<Rightarrow> hookval \<Rightarrow> hookval" where
  "js_bitor a b =
     Val (Num (Fin (of_int (ToInt32 (hook_ToNumber a) OR ToInt32 (hook_ToNumber b)))))"

section \<open>The parameter-spec parser\<close>

text \<open>
  \<^verbatim>\<open>ParamDef\<close>. The fields \<open>required\<close> and \<open>array\<close> may hold any value in a structured
  specification and hold booleans after \<^verbatim>\<open>parseParam\<close>; \<open>min\<close> and \<open>max\<close> are numbers when
  present.
\<close>

record ParamDef =
  pd_type :: string
  pd_default :: jsval
  pd_required :: jsval
  pd_array :: jsval
  pd_min :: "jsnum option"
  pd_max :: "jsnum option"
  pd_validate :: hookval
  pd_error :: hookval
  pd_success :: hookval

text \<open>The class \<^verbatim>\<open>\w\<close>.\<close>

definition is_word :: "char \<Rightarrow> bool" where
  "is_word c =
     (let n = (of_char c :: nat)
      in (48 \<le> n \<and> n \<le> 57) \<or> (65 \<le> n \<and> n \<le> 90) \<or> n = 95 \<or> (97 \<le> n \<and> n \<le> 122))"

text \<open>
  \<^verbatim>\<open>str.match(paramMatcher)\<close> for \<^verbatim>\<open>/(\w+)(\[])?(\(([^)]*)\))?/\<close>: the groups 1 to 4 of
  the leftmost match, or \<open>None\<close> for \<^verbatim>\<open>null\<close>. The match starts at the first word
  character and takes the whole run of word characters; then \<^verbatim>\<open>[]\<close> if it follows
  (\<open>match_array\<close>, with the rest of the string); then a parenthesis up to the first
  closing one, if there is a closing one (\<open>match_default\<close>, groups 3 and 4).
\<close>

definition match_array :: "string \<Rightarrow> string option \<times> string" where
  "match_array r = (if take 2 r = ''[]'' then (Some ''[]'', drop 2 r) else (None, r))"

definition match_default :: "string \<Rightarrow> string option \<times> string option" where
  "match_default r =
     (case r of
        [] \<Rightarrow> (None, None)
      | c # r' \<Rightarrow>
          if c = CHR ''('' \<and> dropWhile (\<lambda>c. c \<noteq> CHR '')'') r' \<noteq> []
          then (let m4 = takeWhile (\<lambda>c. c \<noteq> CHR '')'') r'
                in (Some (''('' @ m4 @ '')''), Some m4))
          else (None, None))"

definition paramMatcher ::
  "string \<Rightarrow> (string \<times> string option \<times> string option \<times> string option) option" where
  "paramMatcher str =
     (let s = dropWhile (\<lambda>c. \<not> is_word c) str
      in if s = [] then None
         else
           (let m1 = takeWhile is_word s;
                (m2, r) = match_array (dropWhile is_word s);
                (m3, m4) = match_default r
            in Some (m1, m2, m3, m4)))"

text \<open>
  The argument of \<^verbatim>\<open>parseParam\<close>: a string, an object, \<^verbatim>\<open>null\<close> (whose \<^verbatim>\<open>typeof\<close> is
  \<^verbatim>\<open>'object'\<close>), or a value of another type. An object comes with the writability of the
  three properties that \<^verbatim>\<open>parseParam\<close> assigns: the module is not in strict mode, so an
  assignment to a property that is not writable (of a frozen object, say) is dropped
  silently.
\<close>

record writability =
  wr_required :: bool
  wr_default :: bool
  wr_array :: bool

definition writable :: writability where
  "writable = \<lparr>wr_required = True, wr_default = True, wr_array = True\<rparr>"

definition frozen :: writability where
  "frozen = \<lparr>wr_required = False, wr_default = False, wr_array = False\<rparr>"

datatype param_spec =
  SpecString string | SpecObject ParamDef writability | SpecNull | SpecOther

text \<open>The case labels of \<^verbatim>\<open>switch(str.required)\<close>, compared strictly.\<close>

definition required_false_label :: "jsval \<Rightarrow> bool" where
  "required_false_label v =
     (v \<in> {Num (Fin 0), Str ''FALSE'', Str ''false'', Str ''F'', Str ''f'', Str ''no'', Str ''n'',
            Bool False})"

definition parseParam :: "param_spec \<Rightarrow> error + ParamDef" where
  "parseParam str =
     (case str of
        SpecString s \<Rightarrow>
          (case paramMatcher s of
             None \<Rightarrow> Inl (TypeError ''Cannot read properties of null'')
           | Some (m1, m2, m3, m4) \<Rightarrow>
               (let type = toLowerCase (trim m1);
                    array = (m2 \<noteq> None);
                    required = (m3 = None)
                in case parseValue type (case m4 of None \<Rightarrow> Undefined | Some d \<Rightarrow> Str d) array of
                     Inl e \<Rightarrow> Inl e
                   | Inr def \<Rightarrow>
                       Inr \<lparr>pd_type = type, pd_default = def, pd_required = Bool required,
                            pd_array = Bool array, pd_min = None, pd_max = None,
                            pd_validate = Val Undefined, pd_error = Val Undefined,
                            pd_success = Val Undefined\<rparr>))
      | SpecObject obj w \<Rightarrow>
          (let required =
                 (if required_false_label (pd_required obj) then Bool False
                  else Bool (pd_default obj = Undefined));
               obj1 = (if wr_required w then obj\<lparr>pd_required := required\<rparr> else obj);
               default = (if pd_default obj1 \<noteq> Undefined then pd_default obj1 else Undefined);
               obj2 = (if wr_default w then obj1\<lparr>pd_default := default\<rparr> else obj1);
               array = Bool (truthy (pd_array obj2));
               obj3 = (if wr_array w then obj2\<lparr>pd_array := array\<rparr> else obj2)
           in Inr obj3)
      | SpecNull \<Rightarrow> Inl (TypeError ''Cannot read properties of null'')
      | SpecOther \<Rightarrow> Inl (Error ''Given parameter is incompatible''))"


section \<open>Endpoint configuration\<close>

text \<open>
  \<^verbatim>\<open>context.configuration\<close>, the process-wide defaults; the \<^verbatim>\<open>api\<close> object handed to
  \<^verbatim>\<open>configure\<close>, whose parameters are still specifications; and the same object after
  \<^verbatim>\<open>configure\<close>, as it is registered and later returned by the endpoint lookup.
\<close>

record Configuration =
  cfg_paramOrder :: "string list option"
  cfg_paramMap :: "string option"
  cfg_error :: hookval
  cfg_validate :: hookval
  cfg_success :: hookval

record ApiSpec =
  api_paramOrder :: "string list option"
  api_paramMap :: "string option"
  api_params :: "(string \<times> param_spec) list option"
  api_version :: jsval
  api_error :: hookval
  api_validate :: hookval
  api_success :: hookval

record EndpointConfig =
  ep_paramOrder :: "string list option"
  ep_paramMap :: string
  ep_params :: "(string \<times> ParamDef) list"
  ep_version :: jsval
  ep_error :: hookval
  ep_validate :: hookval
  ep_success :: hookval

text \<open>The \<^verbatim>\<open>api\<close> argument: missing or falsy, a handler function, or an object.\<close>

datatype api_arg = ApiAbsent | ApiHandler | ApiObject ApiSpec

text \<open>
  What \<^verbatim>\<open>configure\<close> returns: the pass-through middleware, with nothing registered, or
  \<^verbatim>\<open>verify\<close> bound to the context after the configuration was added to the endpoints.
\<close>

datatype configured = PassThrough | Verifier EndpointConfig

text \<open>
  \<^verbatim>\<open>a || b\<close> on optional arrays (an array is truthy) and on optional strings (the empty
  string is falsy), and \<^verbatim>\<open>a || 'literal'\<close> with a non-empty string literal.
\<close>

definition or_list :: "'a list option \<Rightarrow> 'a list option \<Rightarrow> 'a list option" where
  "or_list a b = (case a of Some x \<Rightarrow> Some x | None \<Rightarrow> b)"

definition or_string :: "string option \<Rightarrow> string option \<Rightarrow> string option" where
  "or_string a b = (case a of Some x \<Rightarrow> if x \<noteq> [] then Some x else b | None \<Rightarrow> b)"

definition or_literal :: "string option \<Rightarrow> string \<Rightarrow> string" where
  "or_literal a b = (case a of Some x \<Rightarrow> if x \<noteq> [] then x else b | None \<Rightarrow> b)"

text \<open>The three assignments to \<^verbatim>\<open>parsed\<close> in the loop of \<^verbatim>\<open>configure\<close>.\<close>

definition backfill :: "Configuration \<Rightarrow> ApiSpec \<Rightarrow> ParamDef \<Rightarrow> ParamDef" where
  "backfill configuration api parsed =
     parsed\<lparr>pd_error := js_or (js_bitor (pd_error parsed) (api_error api)) (cfg_error configuration),
            pd_validate :=
              js_or (js_or (pd_validate parsed) (api_validate api)) (cfg_validate configuration),
            pd_success :=
              js_or (js_or (pd_success parsed) (api_success api)) (cfg_success configuration)\<rparr>"

definition configure ::
  "Configuration \<Rightarrow> string \<Rightarrow> api_arg \<Rightarrow> jsval \<Rightarrow> error + configured" where
  "configure configuration method api_arg version =
     (case api_arg of
        ApiAbsent \<Rightarrow> Inr PassThrough
      | ApiHandler \<Rightarrow> Inr PassThrough
      | ApiObject api \<Rightarrow>
          if method = ''param'' then Inr PassThrough
          else if version = Undefined \<or> version = Null
          then Inl (TypeError ''Cannot read properties of undefined'')
          else
            (case collect
                    (map (\<lambda>(param, spec).
                            map_sum_r (\<lambda>parsed. (param, backfill configuration api parsed))
                              (parseParam spec))
                       (case api_params api of None \<Rightarrow> [] | Some ps \<Rightarrow> ps)) of
               Inl e \<Rightarrow> Inl e
             | Inr params \<Rightarrow>
                 Inr (Verifier
                   \<lparr>ep_paramOrder = or_list (api_paramOrder api) (cfg_paramOrder configuration),
                    ep_paramMap =
                      or_literal (or_string (api_paramMap api) (cfg_paramMap configuration))
                        ''args'',
                    ep_params = params,
                    ep_version = (if truthy (length_of version) then version else api_version api),
                    ep_error = api_error api,
                    ep_validate = api_validate api,
                    ep_success = api_success api\<rparr>)))"

section \<open>The validation pipeline\<close>

text \<open>The request: \<^verbatim>\<open>req[prop]\<close> is an object or is not set.\<close>

type_synonym request = "string \<Rightarrow> (string \<times> jsval) list option"

text \<open>
  \<^verbatim>\<open>config.params[param]\<close> where it is truthy, as the type and the array flag that
  \<^verbatim>\<open>getParams\<close> reads from it. The parameter map is a plain object: a name that is not
  declared but inherited gives a function, whose \<^verbatim>\<open>type\<close> and \<^verbatim>\<open>array\<close> are undefined,
  so that \<^verbatim>\<open>parseValue\<close> falls through its switch with the message ending in
  \<^verbatim>\<open>undefined\<close>.
\<close>

definition config_param :: "EndpointConfig \<Rightarrow> string \<Rightarrow> (string \<times> bool) option" where
  "config_param config param =
     (case map_of (ep_params config) param of
        Some paramConfig \<Rightarrow> Some (pd_type paramConfig, truthy (pd_array paramConfig))
      | None \<Rightarrow> if param \<in> set Object_prototype then Some (''undefined'', False) else None)"

text \<open>
  The inner loop of \<^verbatim>\<open>getParams\<close> over the properties of one source. The map
  \<^verbatim>\<open>params\<close> starts as \<^verbatim>\<open>{}\<close>, so its reads see the inherited properties.
\<close>

fun getParams_source ::
  "EndpointConfig \<Rightarrow> (string \<times> jsval) list \<Rightarrow> string list \<Rightarrow> (string \<times> jsval) list
     \<Rightarrow> error + (string \<times> jsval) list" where
  "getParams_source config source [] params = Inr params"
| "getParams_source config source (param # rest) params =
     (if reads_undefined params param
      then (case config_param config param of
              None \<Rightarrow> getParams_source config source rest params
            | Some (type, array) \<Rightarrow>
                (case parseValue type (get source param) array of
                   Inl e \<Rightarrow> Inl e
                 | Inr v \<Rightarrow> getParams_source config source rest (AList.update param v params)))
      else getParams_source config source rest params)"

fun getParams_loop ::
  "EndpointConfig \<Rightarrow> request \<Rightarrow> string list \<Rightarrow> (string \<times> jsval) list
     \<Rightarrow> error + (string \<times> jsval) list" where
  "getParams_loop config req [] params = Inr params"
| "getParams_loop config req (prop # rest) params =
     (case req prop of
        None \<Rightarrow> getParams_loop config req rest params
      | Some source \<Rightarrow>
          (case getParams_source config source (map fst source) params of
             Inl e \<Rightarrow> Inl e
           | Inr params' \<Rightarrow> getParams_loop config req rest params'))"

definition getParams :: "EndpointConfig \<Rightarrow> request \<Rightarrow> error + (string \<times> jsval) list" where
  "getParams config req =
     (case ep_paramOrder config of
        None \<Rightarrow> Inl (TypeError ''config.paramOrder is not iterable'')
      | Some order \<Rightarrow> getParams_loop config req order [])"

text \<open>\<^verbatim>\<open>MissingInfo\<close>; the error of a custom validator is whatever truthy value it returned.\<close>

record MissingInfo =
  mi_type :: string
  mi_error :: jsval
  mi_min :: "jsnum option"
  mi_max :: "jsnum option"

text \<open>\<^verbatim>\<open>isNaN(paramConfig.max)\<close>: a bound that is not set converts to \<open>NaN\<close>.\<close>

definition bound_isNaN :: "jsnum option \<Rightarrow> bool" where
  "bound_isNaN b = (case b of None \<Rightarrow> True | Some n \<Rightarrow> isNaN n)"

text \<open>The two bound checks made for one truthy value of a parameter.\<close>

definition check_max ::
  "ParamDef \<Rightarrow> string \<Rightarrow> jsval \<Rightarrow> (string \<times> MissingInfo) list \<Rightarrow> (string \<times> MissingInfo) list"
  where
  "check_max paramConfig param value errors =
     (case pd_max paramConfig of
        None \<Rightarrow> errors
      | Some mx \<Rightarrow>
          if bound_isNaN (pd_max paramConfig) then errors
          else if pd_type paramConfig = ''string'' \<and> js_gt (length_of value) mx
               \<or> pd_type paramConfig = ''number'' \<and> js_gt value mx
          then AList.update param
                 \<lparr>mi_type = pd_type paramConfig, mi_error = Str ''value exceeds max value'',
                  mi_min = None, mi_max = Some mx\<rparr> errors
          else errors)"

definition check_min ::
  "ParamDef \<Rightarrow> string \<Rightarrow> jsval \<Rightarrow> (string \<times> MissingInfo) list \<Rightarrow> (string \<times> MissingInfo) list"
  where
  "check_min paramConfig param value errors =
     (case pd_min paramConfig of
        None \<Rightarrow> errors
      | Some mn \<Rightarrow>
          if bound_isNaN (pd_min paramConfig) then errors
          else if pd_type paramConfig = ''string'' \<and> js_lt (length_of value) mn
               \<or> pd_type paramConfig = ''number'' \<and> js_lt value mn
          then AList.update param
                 \<lparr>mi_type = pd_type paramConfig, mi_error = Str ''value below min value'',
                  mi_min = Some mn, mi_max = None\<rparr> errors
          else errors)"

text \<open>
  The built-in checks of \<^verbatim>\<open>checkParams\<close> for one parameter without a validator: the
  required check, then the bounds of every truthy value.
\<close>

definition builtin_checks ::
  "ParamDef \<Rightarrow> string \<Rightarrow> jsval \<Rightarrow> (string \<times> MissingInfo) list \<Rightarrow> (string \<times> MissingInfo) list"
  where
  "builtin_checks paramConfig param value errors =
     (let errors1 =
            (if truthy (pd_required paramConfig)
                \<and> (value = Undefined \<or> isArray value \<and> \<not> truthy (length_of value))
             then AList.update param
                    \<lparr>mi_type = pd_type paramConfig, mi_error = Str ''not set'',
                     mi_min = None, mi_max = None\<rparr> errors
             else errors);
          values = (case value of Arr vs \<Rightarrow> vs | _ \<Rightarrow> [value])
      in fold (\<lambda>value errors.
                 if truthy value
                 then check_min paramConfig param value (check_max paramConfig param value errors)
                 else errors)
           values errors1)"

text \<open>
  The meaning of the validator callbacks: the value that function \<open>f\<close> returns for
  \<^verbatim>\<open>(value, name, definition)\<close>. A validator is taken to return, and to leave its
  arguments as they are.
\<close>

type_synonym validators = "nat \<Rightarrow> jsval \<Rightarrow> string \<Rightarrow> ParamDef \<Rightarrow> jsval"

fun checkParams_loop ::
  "validators \<Rightarrow> EndpointConfig \<Rightarrow> (string \<times> jsval) list \<Rightarrow> string list
     \<Rightarrow> (string \<times> MissingInfo) list \<Rightarrow> error + (string \<times> MissingInfo) list" where
  "checkParams_loop call config params [] errors = Inr errors"
| "checkParams_loop call config params (param # rest) errors =
     (case map_of (ep_params config) param of
        None \<Rightarrow> checkParams_loop call config params rest errors
      | Some paramConfig \<Rightarrow>
          (let value = get params param
           in if truthy_hook (pd_validate paramConfig)
              then (case pd_validate paramConfig of
                      Fn f \<Rightarrow>
                        (let error = call f value param paramConfig
                         in checkParams_loop call config params rest
                              (if truthy error
                               then AList.update param
                                      \<lparr>mi_type = pd_type paramConfig, mi_error = error,
                                       mi_min = None, mi_max = None\<rparr> errors
                               else errors))
                    | Val v \<Rightarrow> Inl (TypeError ''paramConfig.validate is not a function''))
              else checkParams_loop call config params rest
                     (builtin_checks paramConfig param value errors)))"

definition checkParams ::
  "validators \<Rightarrow> EndpointConfig \<Rightarrow> (string \<times> jsval) list
     \<Rightarrow> error + (string \<times> MissingInfo) list" where
  "checkParams call config params =
     checkParams_loop call config params (map fst (ep_params config)) []"

definition fillParams_step ::
  "EndpointConfig \<Rightarrow> string \<Rightarrow> (string \<times> jsval) list \<Rightarrow> (string \<times> jsval) list" where
  "fillParams_step config param params =
     (case map_of (ep_params config) param of
        None \<Rightarrow> params
      | Some paramConfig \<Rightarrow>
          if get params param = Undefined
          then AList.update param (pd_default paramConfig) params
          else params)"

definition fillParams ::
  "EndpointConfig \<Rightarrow> (string \<times> jsval) list \<Rightarrow> (string \<times> jsval) list" where
  "fillParams config params = fold (fillParams_step config) (map fst (ep_params config)) params"

text \<open>
  What \<^verbatim>\<open>verify\<close> does with a request: it calls \<^verbatim>\<open>next()\<close>, after attaching the filled
  parameters under the configured property when it accepted the request; or it hands over
  to the error or the success callback; or it calls \<^verbatim>\<open>responder.respond\<close> with a body
  (\<open>None\<close> for \<^verbatim>\<open>null\<close>) and a status; or it throws.
\<close>

datatype hook_arg = Thrown error | Missing "(string \<times> MissingInfo) list"

record body =
  body_error :: string
  body_params :: "(string \<times> MissingInfo) list"

datatype outcome =
    Next "(string \<times> (string \<times> jsval) list) option"
  | ErrorHook nat hook_arg
  | SuccessHook nat "string \<times> (string \<times> jsval) list"
  | Respond "body option" nat
  | Throws error

definition call_error :: "hookval \<Rightarrow> hook_arg \<Rightarrow> outcome" where
  "call_error hook arg =
     (case hook of
        Fn f \<Rightarrow> ErrorHook f arg
      | Val v \<Rightarrow> Throws (TypeError ''config.error is not a function''))"

text \<open>
  \<^verbatim>\<open>verify\<close>, given the value of \<^verbatim>\<open>process.env.NODE_ENV\<close> and the result of the endpoint
  lookup \<^verbatim>\<open>this.endpoints.get(req.route.path, req.method, req.incomingVersion)\<close>.
\<close>

definition verify ::
  "validators \<Rightarrow> string option \<Rightarrow> EndpointConfig option \<Rightarrow> request \<Rightarrow> outcome" where
  "verify call NODE_ENV found req =
     (case found of
        None \<Rightarrow> Next None
      | Some config \<Rightarrow>
          (case getParams config req of
             Inl e \<Rightarrow>
               if truthy_hook (ep_error config) then call_error (ep_error config) (Thrown e)
               else Respond (Some \<lparr>body_error = message e, body_params = []\<rparr>) 422
           | Inr params \<Rightarrow>
               (case checkParams call config params of
                  Inl e \<Rightarrow> Throws e
                | Inr missing \<Rightarrow>
                    if missing \<noteq> []
                    then if truthy_hook (ep_error config)
                         then call_error (ep_error config) (Missing missing)
                         else if NODE_ENV = Some ''development''
                         then Respond
                                (Some \<lparr>body_error = ''Required parameters are missing'',
                                       body_params = missing\<rparr>) 422
                         else Respond None 422
                    else
                      (let filled = fillParams config params
                       in if truthy_hook (ep_success config)
                          then (case ep_success config of
                                  Fn f \<Rightarrow> SuccessHook f (ep_paramMap config, filled)
                                | Val v \<Rightarrow> Throws (TypeError ''config.success is not a function''))
                          else Next (Some (ep_paramMap config, filled))))))"

section \<open>Vocabulary of the claims\<close>

text \<open>
  The type tokens that have a case label in the switch of \<^verbatim>\<open>parseValue\<close>, and the five
  types that the specification documents.
\<close>

definition recognized_types :: "string set" where
  "recognized_types =
     {''*'', ''any'', ''string'', ''bool'', ''boolean'', ''number'', ''float'', ''double'',
      ''integer'', ''short''}"

definition documented_types :: "string set" where
  "documented_types = {''any'', ''string'', ''boolean'', ''number'', ''integer''}"

text \<open>
  The boolean coercion in the words of the specification: a case-insensitive match of the
  string against the truthy and the falsy tokens, anything else giving undefined.
\<close>

definition truthy_tokens :: "string set" where
  "truthy_tokens = {''true'', ''t'', ''yes'', ''y'', ''1''}"

definition falsy_tokens :: "string set" where
  "falsy_tokens = {''false'', ''f'', ''no'', ''n'', ''0''}"

definition match_tokens :: "string \<Rightarrow> jsval" where
  "match_tokens s =
     (if toLowerCase s \<in> truthy_tokens then Bool True
      else if toLowerCase s \<in> falsy_tokens then Bool False
      else Undefined)"

text \<open>
  A string of the compact grammar: a type token, an optional \<^verbatim>\<open>[]\<close>, and an optional
  default literal in parentheses.
\<close>

definition compact_spec :: "string \<Rightarrow> bool \<Rightarrow> string option \<Rightarrow> string" where
  "compact_spec name arr dflt =
     name @ (if arr then ''[]'' else [])
       @ (case dflt of None \<Rightarrow> [] | Some d \<Rightarrow> ''('' @ d @ '')'')"

text \<open>
  The raw values that the sources of a request hold for a parameter name, in the order of
  \<^verbatim>\<open>paramOrder\<close>; and the first of a list of coercion results that is not the value
  undefined (undefined when there is none).
\<close>

definition candidates :: "request \<Rightarrow> string list \<Rightarrow> string \<Rightarrow> jsval list" where
  "candidates req props param =
     concat (map (\<lambda>prop. case req prop of
                            None \<Rightarrow> []
                          | Some source \<Rightarrow>
                              (case map_of source param of None \<Rightarrow> [] | Some raw \<Rightarrow> [raw]))
               props)"

fun first_defined :: "(error + jsval) list \<Rightarrow> error + jsval" where
  "first_defined [] = Inr Undefined"
| "first_defined (r # rs) = (if r = Inr Undefined then first_defined rs else r)"

text \<open>
  A raw value that is not empty, in the plain sense of the word: neither undefined nor null,
  nor the empty string, nor the empty array.
\<close>

definition non_empty :: "jsval \<Rightarrow> bool" where
  "non_empty v = (v \<notin> {Undefined, Null, Str [], Arr []})"

text \<open>The specifications whose \<^verbatim>\<open>required\<close> property takes an assignment.\<close>

fun required_writable :: "param_spec \<Rightarrow> bool" where
  "required_writable (SpecObject obj w) = wr_required w"
| "required_writable spec = True"

section \<open>Example endpoints\<close>

text \<open>
  The endpoint of the specification's examples, \<^verbatim>\<open>params: {name: 'string', age:
  'integer(18)'}\<close>, as it stands after \<^verbatim>\<open>configure\<close> with no callbacks; a request whose
  query string has an unusable \<^verbatim>\<open>age\<close> and an undeclared \<^verbatim>\<open>debug\<close>, and whose body
  has both parameters; and a request without \<^verbatim>\<open>name\<close>.
\<close>

definition ex_endpoint :: EndpointConfig where
  "ex_endpoint =
     \<lparr>ep_paramOrder = Some [''query'', ''body''], ep_paramMap = ''args'',
      ep_params =
        [(''name'', \<lparr>pd_type = ''string'', pd_default = Undefined, pd_required = Bool True,
                     pd_array = Bool False, pd_min = None, pd_max = None,
                     pd_validate = Val Undefined, pd_error = Val Undefined,
                     pd_success = Val Undefined\<rparr>),
         (''age'', \<lparr>pd_type = ''integer'', pd_default = Num (Fin 18), pd_required = Bool False,
                    pd_array = Bool False, pd_min = None, pd_max = None,
                    pd_validate = Val Undefined, pd_error = Val Undefined,
                    pd_success = Val Undefined\<rparr>)],
      ep_version = Undefined, ep_error = Val Undefined, ep_validate = Val Undefined,
      ep_success = Val Undefined\<rparr>"

definition ex_request :: request where
  "ex_request =
     map_of [(''query'', [(''age'', Str ''abc''), (''debug'', Str ''1'')]),
             (''body'', [(''age'', Str ''42''), (''name'', Str ''Alice'')])]"

definition ex_request_no_name :: request where
  "ex_request_no_name = map_of [(''query'', [(''age'', Str ''30'')])]"

definition no_validators :: validators where
  "no_validators f value name paramConfig = Undefined"

text \<open>
  An endpoint with one array parameter \<^verbatim>\<open>tags: 'string[]'\<close> that reads the body before
  the query string, and a request whose body has an empty array for it.
\<close>

definition ex_tags :: EndpointConfig where
  "ex_tags =
     \<lparr>ep_paramOrder = Some [''body'', ''query''], ep_paramMap = ''args'',
      ep_params =
        [(''tags'', \<lparr>pd_type = ''string'', pd_default = Undefined, pd_required = Bool True,
                     pd_array = Bool True, pd_min = None, pd_max = None,
                     pd_validate = Val Undefined, pd_error = Val Undefined,
                     pd_success = Val Undefined\<rparr>)],
      ep_version = Undefined, ep_error = Val Undefined, ep_validate = Val Undefined,
      ep_success = Val Undefined\<rparr>"

definition ex_tags_request :: request where
  "ex_tags_request =
     map_of [(''query'', [(''tags'', Str ''a,b'')]), (''body'', [(''tags'', Arr [])])]"

text \<open>A structured specification that is declared required and carries a default.\<close>

definition ex_required_with_default :: ParamDef where
  "ex_required_with_default =
     \<lparr>pd_type = ''integer'', pd_default = Num (Fin 18), pd_required = Bool True,
      pd_array = Undefined, pd_min = None, pd_max = None, pd_validate = Val Undefined,
      pd_error = Val Undefined, pd_success = Val Undefined\<rparr>"

text \<open>
  An endpoint whose parameters are required strings of at least three characters:
  \<^verbatim>\<open>name\<close> with a validator that always returns a message, \<^verbatim>\<open>nick\<close> with a validator
  that always accepts, and \<^verbatim>\<open>city\<close> without a validator.
\<close>

definition ex_validators :: validators where
  "ex_validators f value name paramConfig = (if f = 0 then Str ''bad name'' else Undefined)"

definition ex_validated :: EndpointConfig where
  "ex_validated =
     \<lparr>ep_paramOrder = Some [''query'', ''body''], ep_paramMap = ''args'',
      ep_params =
        [(''name'', \<lparr>pd_type = ''string'', pd_default = Undefined, pd_required = Bool True,
                     pd_array = Bool False, pd_min = Some (Fin 3), pd_max = Some (Fin 10),
                     pd_validate = Fn 0, pd_error = Val Undefined,
                     pd_success = Val Undefined\<rparr>),
         (''nick'', \<lparr>pd_type = ''string'', pd_default = Undefined, pd_required = Bool True,
                     pd_array = Bool False, pd_min = Some (Fin 3), pd_max = None,
                     pd_validate = Fn 1, pd_error = Val Undefined,
                     pd_success = Val Undefined\<rparr>),
         (''city'', \<lparr>pd_type = ''string'', pd_default = Undefined, pd_required = Bool True,
                     pd_array = Bool False, pd_min = Some (Fin 3), pd_max = None,
                     pd_validate = Val Undefined, pd_error = Val Undefined,
                     pd_success = Val Undefined\<rparr>)],
      ep_version = Undefined, ep_error = Val Undefined, ep_validate = Val Undefined,
      ep_success = Val Undefined\<rparr>"

text \<open>
  A registration: process-wide defaults with all three callbacks, and an endpoint that
  supplies its own error and validate callbacks for one parameter given as a string.
\<close>

definition ex_configuration :: Configuration where
  "ex_configuration =
     \<lparr>cfg_paramOrder = Some [''query'', ''body''], cfg_paramMap = None,
      cfg_error = Fn 2, cfg_validate = Fn 4, cfg_success = Fn 6\<rparr>"

definition ex_api :: ApiSpec where
  "ex_api =
     \<lparr>api_paramOrder = None, api_paramMap = None,
      api_params = Some [(''name'', SpecString ''string'')],
      api_version = Undefined,
      api_error = Fn 1, api_validate = Fn 3, api_success = Val Undefined\<rparr>"

section \<open>Properties of the value coercer\<close>

lemma map_sum_r_Inl [simp]: "map_sum_r f r = Inl e \<longleftrightarrow> r = Inl e"
  by (cases r) auto

lemma map_sum_r_Inr [simp]: "map_sum_r f r = Inr y \<longleftrightarrow> (\<exists>x. r = Inr x \<and> y = f x)"
  by (cases r) auto

lemma collect_Inl: "collect rs = Inl e \<Longrightarrow> Inl e \<in> set rs"
  by (induction rs) (auto split: sum.splits)

lemma split_nonempty: "split c s \<noteq> []"
  by (induction s) (auto split: list.splits)

text \<open>The two branches of \<^verbatim>\<open>parseValue\<close> before the switch, one equation each.\<close>

lemma parseValue_Arr:
  "parseValue t (Arr vs) a = map_sum_r Arr (collect (map (\<lambda>entry. parseValue t entry False) vs))"
  by (subst parseValue.simps) simp

lemma parseValue_scalar:
  "\<not> isArray v \<Longrightarrow> parseValue t v False = parseValue_switch t v"
  by (subst parseValue.simps) (cases v; simp)

lemma parseValue_not_array:
  "\<not> isArray v \<Longrightarrow> parseValue t v a =
     (if truthy v \<and> a
      then (case v of
              Str s \<Rightarrow>
                map_sum_r Arr
                  (collect (map (\<lambda>entry. parseValue_switch t (Str entry)) (split CHR '','' s)))
            | _ \<Rightarrow> Inl (TypeError ''value.split is not a function''))
      else parseValue_switch t v)"
  by (subst parseValue.simps) (cases v; simp add: parseValue_scalar)

text \<open>Two type tokens that the switch treats alike are treated alike on every value.\<close>

lemma parseValue_cong_switch:
  assumes "\<And>w. parseValue_switch t1 w = parseValue_switch t2 w"
  shows "parseValue t1 v a = parseValue t2 v a"
proof (induction v arbitrary: a)
  case (Arr vs)
  then have "map (\<lambda>entry. parseValue t1 entry False) vs = map (\<lambda>entry. parseValue t2 entry False) vs"
    by simp
  then show ?case by (simp only: parseValue_Arr)
qed (simp_all add: parseValue_not_array assms)

text \<open>An \<^verbatim>\<open>Error\<close> can only come out of the switch.\<close>

lemma parseValue_no_Error:
  assumes "\<And>w. parseValue_switch t w \<noteq> Inl (Error m)"
  shows "parseValue t v a \<noteq> Inl (Error m)"
proof (induction v arbitrary: a)
  case (Arr vs)
  show ?case
  proof
    assume "parseValue t (Arr vs) a = Inl (Error m)"
    then have "collect (map (\<lambda>entry. parseValue t entry False) vs) = Inl (Error m)"
      by (simp add: parseValue_Arr)
    then have "Inl (Error m) \<in> set (map (\<lambda>entry. parseValue t entry False) vs)"
      by (rule collect_Inl)
    then obtain entry where "entry \<in> set vs" "parseValue t entry False = Inl (Error m)"
      by auto
    with Arr show False by blast
  qed
next
  case (Str s)
  show ?case
  proof
    assume h: "parseValue t (Str s) a = Inl (Error m)"
    show False
    proof (cases "s \<noteq> [] \<and> a")
      case True
      with h have "collect (map (\<lambda>entry. parseValue_switch t (Str entry)) (split CHR '','' s))
                     = Inl (Error m)"
        by (simp add: parseValue_not_array)
      then have "Inl (Error m)
                   \<in> set (map (\<lambda>entry. parseValue_switch t (Str entry)) (split CHR '','' s))"
        by (rule collect_Inl)
      then obtain entry where "parseValue_switch t (Str entry) = Inl (Error m)"
        by auto
      with assms show False by blast
    next
      case False
      with h assms show False by (auto simp: parseValue_not_array)
    qed
  qed
qed (simp_all add: parseValue_not_array assms)

text \<open>
  Claim C10. The coercer accepts type tokens beyond the five documented ones: for every raw
  value and array flag, \<^verbatim>\<open>'*'\<close> gives the result of \<^verbatim>\<open>'any'\<close>, \<^verbatim>\<open>'bool'\<close> that of
  \<^verbatim>\<open>'boolean'\<close>, \<^verbatim>\<open>'float'\<close> and \<^verbatim>\<open>'double'\<close> that of \<^verbatim>\<open>'number'\<close>, and \<^verbatim>\<open>'short'\<close>
  that of \<^verbatim>\<open>'integer'\<close>, and none of these tokens raises the invalid-type error.
\<close>

theorem parseValue_type_synonyms:
  "parseValue ''*'' value array = parseValue ''any'' value array
   \<and> parseValue ''bool'' value array = parseValue ''boolean'' value array
   \<and> parseValue ''float'' value array = parseValue ''number'' value array
   \<and> parseValue ''double'' value array = parseValue ''number'' value array
   \<and> parseValue ''short'' value array = parseValue ''integer'' value array
   \<and> parseValue ''*'' value array
        \<noteq> Inl (Error (''Invalid type defined for parameter: '' @ ''*''))
   \<and> parseValue ''bool'' value array
        \<noteq> Inl (Error (''Invalid type defined for parameter: '' @ ''bool''))
   \<and> parseValue ''float'' value array
        \<noteq> Inl (Error (''Invalid type defined for parameter: '' @ ''float''))
   \<and> parseValue ''double'' value array
        \<noteq> Inl (Error (''Invalid type defined for parameter: '' @ ''double''))
   \<and> parseValue ''short'' value array
        \<noteq> Inl (Error (''Invalid type defined for parameter: '' @ ''short''))"
proof -
  have 1: "parseValue ''*'' value array = parseValue ''any'' value array"
    by (rule parseValue_cong_switch) (simp add: parseValue_switch_def)
  have 2: "parseValue ''bool'' value array = parseValue ''boolean'' value array"
    by (rule parseValue_cong_switch) (simp add: parseValue_switch_def)
  have 3: "parseValue ''float'' value array = parseValue ''number'' value array"
    by (rule parseValue_cong_switch) (simp add: parseValue_switch_def)
  have 4: "parseValue ''double'' value array = parseValue ''number'' value array"
    by (rule parseValue_cong_switch) (simp add: parseValue_switch_def)
  have 5: "parseValue ''short'' value array = parseValue ''integer'' value array"
    by (rule parseValue_cong_switch) (simp add: parseValue_switch_def)
  have 6: "parseValue ''*'' value array \<noteq> Inl (Error m)" for m
    by (rule parseValue_no_Error) (simp add: parseValue_switch_def)
  have 7: "parseValue ''bool'' value array \<noteq> Inl (Error m)" for m
    by (rule parseValue_no_Error) (simp add: parseValue_switch_def split: jsval.splits)
  have 8: "parseValue ''float'' value array \<noteq> Inl (Error m)" for m
    by (rule parseValue_no_Error) (simp add: parseValue_switch_def Let_def)
  have 9: "parseValue ''double'' value array \<noteq> Inl (Error m)" for m
    by (rule parseValue_no_Error) (simp add: parseValue_switch_def Let_def)
  have 10: "parseValue ''short'' value array \<noteq> Inl (Error m)" for m
    by (rule parseValue_no_Error) (simp add: parseValue_switch_def Let_def)
  show ?thesis using 1 2 3 4 5 6 7 8 9 10 by blast
qed

lemma parseValue_switch_invalid:
  "type \<notin> recognized_types \<Longrightarrow>
     parseValue_switch type w = Inl (Error (''Invalid type defined for parameter: '' @ type))"
  by (simp add: parseValue_switch_def recognized_types_def)

lemma collect_all_Inl: "rs \<noteq> [] \<Longrightarrow> collect (map (\<lambda>x. Inl e) rs) = Inl e"
  by (cases rs) simp_all

text \<open>
  Claim C8, as amended. For every raw value that is not an array and every type token
  without a case label in the switch (any token other than \<^verbatim>\<open>*\<close>, \<^verbatim>\<open>any\<close>,
  \<^verbatim>\<open>string\<close>, \<^verbatim>\<open>bool\<close>, \<^verbatim>\<open>boolean\<close>, \<^verbatim>\<open>number\<close>, \<^verbatim>\<open>float\<close>, \<^verbatim>\<open>double\<close>,
  \<^verbatim>\<open>integer\<close>, \<^verbatim>\<open>short\<close>) the coercer throws and returns no value: the invalid-type
  error, except that a truthy value that is not a string, coerced with the array flag set,
  fails earlier because it has no \<^verbatim>\<open>split\<close>.
\<close>

theorem parseValue_invalid_type:
  assumes "type \<notin> recognized_types" and "\<not> isArray value"
  shows "parseValue type value array =
           (if truthy value \<and> array \<and> (\<forall>s. value \<noteq> Str s)
            then Inl (TypeError ''value.split is not a function'')
            else Inl (Error (''Invalid type defined for parameter: '' @ type)))"
  using assms
  by (cases "value")
     (simp_all add: parseValue_not_array parseValue_switch_invalid collect_all_Inl split_nonempty)

theorem parseValue_invalid_type_witness:
  "''date'' \<notin> recognized_types \<and> \<not> isArray (Str ''2020-01-01'')
   \<and> parseValue ''date'' (Str ''2020-01-01'') False
       = Inl (Error ''Invalid type defined for parameter: date'')"
  using parseValue_invalid_type [of "''date''" "Str ''2020-01-01''" False]
  by (simp add: recognized_types_def)

text \<open>
  Claim C8 as stated fails: \<^verbatim>\<open>bool\<close> lies outside the documented set of types, and a
  scalar value is coerced with it without any error.
\<close>

theorem parseValue_bool_not_rejected:
  "''bool'' \<notin> documented_types \<and> \<not> isArray (Str ''yes'')
   \<and> parseValue ''bool'' (Str ''yes'') False = Inr (Bool True)"
proof -
  have "parseValue ''bool'' (Str ''yes'') False = Inr (Bool True)" by code_simp
  then show ?thesis by (simp add: documented_types_def)
qed

lemma toLowerCase_Nil [simp]: "toLowerCase [] = []"
  by (simp add: toLowerCase_def)

lemma trim_Nil [simp]: "trim [] = []"
  by (simp add: trim_def)

lemma parseValue_switch_boolean:
  "parseValue_switch ''boolean'' value =
     Inr (case value of Bool b \<Rightarrow> Bool b | Str s \<Rightarrow> match_tokens (trim s) | _ \<Rightarrow> Undefined)"
  by (cases "value")
     (auto simp: parseValue_switch_def match_tokens_def truthy_tokens_def falsy_tokens_def)

text \<open>
  Claim C2, as amended. Scalar coercion (a raw value that is not an array, array flag
  false) follows the type matrix: for \<^verbatim>\<open>boolean\<close> a boolean passes through, a string is
  trimmed of surrounding white space and then matched case-insensitively against the truthy
  tokens, giving true, and the falsy tokens, giving false, and anything else gives
  undefined; for \<^verbatim>\<open>number\<close> the value is parsed by \<^verbatim>\<open>parseFloat\<close> and for \<^verbatim>\<open>integer\<close>
  by \<^verbatim>\<open>parseInt\<close>, with \<open>NaN\<close> becoming undefined. The four examples of the
  specification hold.
\<close>

theorem parseValue_scalar_matrix:
  assumes "\<not> isArray value"
  shows "parseValue ''boolean'' value False
           = Inr (case value of
                    Bool b \<Rightarrow> Bool b
                  | Str s \<Rightarrow> match_tokens (trim s)
                  | _ \<Rightarrow> Undefined)
         \<and> parseValue ''number'' value False
           = Inr (if parseFloat value = NaN then Undefined else Num (parseFloat value))
         \<and> parseValue ''integer'' value False
           = Inr (if parseInt value = NaN then Undefined else Num (parseInt value))
         \<and> parseValue ''boolean'' (Str ''YES'') False = Inr (Bool True)
         \<and> parseValue ''boolean'' (Str ''maybe'') False = Inr Undefined
         \<and> parseValue ''integer'' (Str ''12.9'') False = Inr (Num (Fin 12))
         \<and> parseValue ''number'' (Str ''abc'') False = Inr Undefined"
proof -
  have 1: "parseValue ''boolean'' value False
           = Inr (case value of Bool b \<Rightarrow> Bool b | Str s \<Rightarrow> match_tokens (trim s)
                  | _ \<Rightarrow> Undefined)"
    using assms by (simp add: parseValue_scalar parseValue_switch_boolean)
  have 2: "parseValue ''number'' value False
           = Inr (if parseFloat value = NaN then Undefined else Num (parseFloat value))"
    using assms by (simp add: parseValue_scalar parseValue_switch_def isNaN_def Let_def)
  have 3: "parseValue ''integer'' value False
           = Inr (if parseInt value = NaN then Undefined else Num (parseInt value))"
    using assms by (simp add: parseValue_scalar parseValue_switch_def isNaN_def Let_def)
  have 4: "parseValue ''boolean'' (Str ''YES'') False = Inr (Bool True)" by code_simp
  have 5: "parseValue ''boolean'' (Str ''maybe'') False = Inr Undefined" by code_simp
  have 6: "parseValue ''integer'' (Str ''12.9'') False = Inr (Num (Fin 12))" by code_simp
  have 7: "parseValue ''number'' (Str ''abc'') False = Inr Undefined" by code_simp
  show ?thesis using 1 2 3 4 5 6 7 by blast
qed

theorem parseValue_scalar_matrix_witness:
  "\<not> isArray (Str '' Yes '')
   \<and> parseValue ''boolean'' (Str '' Yes '') False = Inr (Bool True)
   \<and> parseValue ''number'' (Str '' Yes '') False = Inr Undefined
   \<and> parseValue ''integer'' (Str '' Yes '') False = Inr Undefined"
proof -
  have a: "match_tokens (trim '' Yes '') = Bool True" by code_simp
  have b: "parseFloat_str '' Yes '' = NaN" by code_simp
  have c: "parseInt_str '' Yes '' = NaN" by code_simp
  show ?thesis
    using parseValue_scalar_matrix [of "Str '' Yes ''"] by (simp add: a b c)
qed

text \<open>
  Claim C2 as stated fails: the string \<^verbatim>\<open>' yes '\<close> matches no token, with or without
  regard to case, so it should give undefined; the code trims it first and gives true.
\<close>

theorem parseValue_boolean_trims:
  "match_tokens '' yes '' = Undefined
   \<and> parseValue ''boolean'' (Str '' yes '') False = Inr (Bool True)"
  by code_simp

section \<open>Properties of the parameter-spec parser\<close>

lemma parseValue_Undefined: "parseValue t Undefined a = Inr v \<Longrightarrow> v = Undefined"
  by (simp add: parseValue_not_array parseValue_switch_def isNaN_def split: if_splits)

lemma match_default_groups: "match_default r = (m3, m4) \<Longrightarrow> (m3 = None \<longleftrightarrow> m4 = None)"
  by (auto simp: match_default_def Let_def split: list.splits if_splits)

lemma paramMatcher_groups:
  "paramMatcher s = Some (m1, m2, m3, m4) \<Longrightarrow> (m3 = None \<longleftrightarrow> m4 = None)"
  by (auto simp: paramMatcher_def Let_def split: if_splits prod.splits dest: match_default_groups)

lemma parseParam_SpecString:
  "parseParam (SpecString s) = Inr d \<Longrightarrow> paramMatcher s = Some (m1, m2, m3, m4) \<Longrightarrow>
     parseValue (toLowerCase (trim m1)) (case m4 of None \<Rightarrow> Undefined | Some x \<Rightarrow> Str x)
            (m2 \<noteq> None) = Inr (pd_default d)
       \<and> pd_required d = Bool (m3 = None)"
  by (auto simp: parseParam_def Let_def split: option.splits sum.splits)

lemma parseParam_SpecString_match:
  "parseParam (SpecString s) = Inr d \<Longrightarrow> paramMatcher s \<noteq> None"
  by (cases "paramMatcher s") (simp_all add: parseParam_def)

lemma parseParam_SpecObject:
  "parseParam (SpecObject obj w) = Inr d \<Longrightarrow> wr_required w \<Longrightarrow>
     pd_default d = pd_default obj
     \<and> pd_required d = (if required_false_label (pd_required obj) then Bool False
                         else Bool (pd_default obj = Undefined))"
  by (auto simp: parseParam_def Let_def split: if_splits)

text \<open>
  Claim C3, as amended. Whatever \<^verbatim>\<open>parseParam\<close> accepts, a compact string or a structured
  object whose \<^verbatim>\<open>required\<close> property is writable, the definition it returns has
  \<open>required = true\<close> only with an undefined default; equivalently, a definition with a
  default is not required.
\<close>

theorem parseParam_required_invariant:
  assumes "parseParam spec = Inr d" and "required_writable spec"
  shows "(pd_required d = Bool True \<longrightarrow> pd_default d = Undefined)
         \<and> (pd_default d \<noteq> Undefined \<longrightarrow> pd_required d = Bool False)"
proof (cases spec)
  case (SpecString s)
  with assms have p: "parseParam (SpecString s) = Inr d" by simp
  then obtain m1 m2 m3 m4 where m: "paramMatcher s = Some (m1, m2, m3, m4)"
    using parseParam_SpecString_match [OF p] by (cases "paramMatcher s") auto
  have pv: "parseValue (toLowerCase (trim m1)) (case m4 of None \<Rightarrow> Undefined | Some x \<Rightarrow> Str x)
            (m2 \<noteq> None) = Inr (pd_default d)"
    and r: "pd_required d = Bool (m3 = None)"
    using parseParam_SpecString [OF p m] by simp_all
  have "m3 = None \<Longrightarrow> pd_default d = Undefined"
    using pv paramMatcher_groups [OF m] by (auto dest: parseValue_Undefined)
  with r show ?thesis by auto
next
  case (SpecObject obj w)
  with assms show ?thesis using parseParam_SpecObject [of obj w d] by (auto split: if_splits)
next
  case SpecNull
  with assms show ?thesis by (simp add: parseParam_def)
next
  case SpecOther
  with assms show ?thesis by (simp add: parseParam_def)
qed

theorem parseParam_required_invariant_witness:
  "parseParam (SpecString ''string'')
     = Inr \<lparr>pd_type = ''string'', pd_default = Undefined,
            pd_required = Bool True, pd_array = Bool False,
            pd_min = None, pd_max = None, pd_validate = Val Undefined,
            pd_error = Val Undefined, pd_success = Val Undefined\<rparr>
   \<and> required_writable (SpecString ''string'')
   \<and> parseParam (SpecObject ex_required_with_default writable)
     = Inr \<lparr>pd_type = ''integer'', pd_default = Num (Fin 18),
            pd_required = Bool False, pd_array = Bool False,
            pd_min = None, pd_max = None, pd_validate = Val Undefined,
            pd_error = Val Undefined, pd_success = Val Undefined\<rparr>
   \<and> required_writable (SpecObject ex_required_with_default writable)"
proof -
  have p: "parseParam (SpecString ''string'')
     = Inr \<lparr>pd_type = ''string'', pd_default = Undefined,
            pd_required = Bool True, pd_array = Bool False,
            pd_min = None, pd_max = None, pd_validate = Val Undefined,
            pd_error = Val Undefined, pd_success = Val Undefined\<rparr>"
    by code_simp
  have q: "parseParam (SpecObject ex_required_with_default writable)
     = Inr \<lparr>pd_type = ''integer'', pd_default = Num (Fin 18),
            pd_required = Bool False, pd_array = Bool False,
            pd_min = None, pd_max = None, pd_validate = Val Undefined,
            pd_error = Val Undefined, pd_success = Val Undefined\<rparr>"
    by (simp add: parseParam_def required_false_label_def ex_required_with_default_def
          writable_def)
  have w: "required_writable (SpecString ''string'')"
    "required_writable (SpecObject ex_required_with_default writable)"
    by (simp_all add: writable_def)
  show ?thesis
    using parseParam_required_invariant [OF p w(1)] parseParam_required_invariant [OF q w(2)]
      p q w
    by simp
qed

text \<open>
  Claim C3 as stated fails: a frozen specification object that is declared required and
  carries a default comes back as it went in, required and with its default.
\<close>

theorem parseParam_frozen_keeps_required:
  "parseParam (SpecObject ex_required_with_default frozen) = Inr ex_required_with_default
   \<and> pd_required ex_required_with_default = Bool True
   \<and> pd_default ex_required_with_default = Num (Fin 18)"
  by (simp add: parseParam_def frozen_def ex_required_with_default_def Let_def)

lemma is_word_not_ws: "is_word c \<Longrightarrow> \<not> is_ws c"
  by (auto simp: is_word_def is_ws_def Let_def)

lemma trim_word:
  assumes "list_all is_word s"
  shows "trim s = s"
proof -
  have a: "list_all is_word t \<Longrightarrow> dropWhile is_ws t = t" for t
    by (cases t) (auto simp: is_word_not_ws)
  have "list_all is_word (rev s)" using assms by (simp add: list_all_iff)
  then show ?thesis using assms by (simp add: trim_def a)
qed

lemma not_word_brackets: "\<not> is_word CHR ''[''" "\<not> is_word CHR ''(''"
  by (simp_all add: is_word_def)

lemma match_default_compact:
  assumes "case dflt of None \<Rightarrow> True | Some d \<Rightarrow> CHR '')'' \<notin> set d"
  shows "match_default (case dflt of None \<Rightarrow> [] | Some d \<Rightarrow> ''('' @ d @ '')'')
           = (map_option (\<lambda>d. ''('' @ d @ '')'') dflt, dflt)"
proof (cases dflt)
  case None
  then show ?thesis by (simp add: match_default_def)
next
  case (Some d)
  with assms have n: "CHR '')'' \<notin> set d" by simp
  have "takeWhile (\<lambda>c. c \<noteq> CHR '')'') (d @ '')'') = d"
       "dropWhile (\<lambda>c. c \<noteq> CHR '')'') (d @ '')'') = '')''"
    using n by (induction d) auto
  with Some show ?thesis by (simp add: match_default_def)
qed

lemma match_array_compact:
  "match_array ((if arr then ''[]'' else [])
                  @ (case dflt of None \<Rightarrow> [] | Some d \<Rightarrow> ''('' @ d @ '')''))
     = (if arr then Some ''[]'' else None,
        case dflt of None \<Rightarrow> [] | Some d \<Rightarrow> ''('' @ d @ '')'')"
  by (cases arr; cases dflt) (simp_all add: match_array_def)

text \<open>On a string of the compact grammar the match is the whole string, split as written.\<close>

lemma paramMatcher_compact:
  assumes "name \<noteq> []" and "list_all is_word name"
    and "case dflt of None \<Rightarrow> True | Some d \<Rightarrow> CHR '')'' \<notin> set d"
  shows "paramMatcher (compact_spec name arr dflt)
           = Some (name, if arr then Some ''[]'' else None,
                   map_option (\<lambda>d. ''('' @ d @ '')'') dflt, dflt)"
proof -
  define rest where
    "rest = (if arr then ''[]'' else [])
              @ (case dflt of None \<Rightarrow> [] | Some d \<Rightarrow> ''('' @ d @ '')'')"
  have w: "\<And>x. x \<in> set name \<Longrightarrow> is_word x" using assms(2) by (simp add: list_all_iff)
  have r: "takeWhile is_word rest = []" "dropWhile is_word rest = rest"
    by (cases arr; cases dflt; simp add: rest_def not_word_brackets)+
  have 1: "dropWhile (\<lambda>c. \<not> is_word c) (name @ rest) = name @ rest"
    using assms(1) w by (cases name) auto
  have 2: "takeWhile is_word (name @ rest) = name"
    using w r by (simp add: takeWhile_append2)
  have 3: "dropWhile is_word (name @ rest) = rest"
    using w r by (simp add: dropWhile_append2)
  have 4: "match_array rest
             = (if arr then Some ''[]'' else None,
                case dflt of None \<Rightarrow> [] | Some d \<Rightarrow> ''('' @ d @ '')'')"
    unfolding rest_def by (rule match_array_compact)
  have "paramMatcher (name @ rest)
           = Some (name, if arr then Some ''[]'' else None,
                   map_option (\<lambda>d. ''('' @ d @ '')'') dflt, dflt)"
    unfolding paramMatcher_def 1 Let_def 2 3 4
    using assms(1) by (simp add: match_default_compact [OF assms(3)])
  then show ?thesis by (simp add: compact_spec_def rest_def)
qed

text \<open>
  Claim C1. For a string of the compact grammar (a non-empty type token of word characters,
  an optional \<^verbatim>\<open>[]\<close>, an optional parenthesised literal without a closing parenthesis
  inside) \<^verbatim>\<open>parseParam\<close> fails only if the coercion of the default fails, and otherwise
  returns the definition whose type is the lowercased token, whose array flag tells whether
  \<^verbatim>\<open>[]\<close> was present, which is required iff there was no parenthesised segment (an empty
  \<^verbatim>\<open>()\<close> is a segment), and whose default is the literal run through \<^verbatim>\<open>parseValue\<close>.
\<close>

theorem parseParam_compact:
  assumes "name \<noteq> []" and "list_all is_word name"
    and "case dflt of None \<Rightarrow> True | Some d \<Rightarrow> CHR '')'' \<notin> set d"
  shows "parseParam (SpecString (compact_spec name arr dflt))
           = (case parseValue (toLowerCase name)
                     (case dflt of None \<Rightarrow> Undefined | Some d \<Rightarrow> Str d) arr of
                Inl e \<Rightarrow> Inl e
              | Inr def \<Rightarrow>
                  Inr \<lparr>pd_type = toLowerCase name, pd_default = def,
                       pd_required = Bool (dflt = None), pd_array = Bool arr,
                       pd_min = None, pd_max = None, pd_validate = Val Undefined,
                       pd_error = Val Undefined, pd_success = Val Undefined\<rparr>)"
  unfolding parseParam_def
  by (simp add: paramMatcher_compact [OF assms] trim_word [OF assms(2)] Let_def
           split: sum.splits)

text \<open>
  The two examples of the specification, and an empty segment, from the theorem:
  \<^verbatim>\<open>'integer[](1,2,3)'\<close>, \<^verbatim>\<open>'string'\<close> and \<^verbatim>\<open>'String()'\<close>.
\<close>

theorem parseParam_compact_witness:
  "parseParam (SpecString ''integer[](1,2,3)'')
     = Inr \<lparr>pd_type = ''integer'',
            pd_default = Arr [Num (Fin 1), Num (Fin 2), Num (Fin 3)],
            pd_required = Bool False, pd_array = Bool True,
            pd_min = None, pd_max = None, pd_validate = Val Undefined,
            pd_error = Val Undefined, pd_success = Val Undefined\<rparr>
   \<and> parseParam (SpecString ''string'')
     = Inr \<lparr>pd_type = ''string'', pd_default = Undefined,
            pd_required = Bool True, pd_array = Bool False,
            pd_min = None, pd_max = None, pd_validate = Val Undefined,
            pd_error = Val Undefined, pd_success = Val Undefined\<rparr>
   \<and> parseParam (SpecString ''String()'')
     = Inr \<lparr>pd_type = ''string'', pd_default = Undefined,
            pd_required = Bool False, pd_array = Bool False,
            pd_min = None, pd_max = None, pd_validate = Val Undefined,
            pd_error = Val Undefined, pd_success = Val Undefined\<rparr>"
proof -
  have w: "list_all is_word ''integer''" "list_all is_word ''string''"
    "list_all is_word ''String''"
    by (simp_all add: is_word_def)
  have l: "toLowerCase ''integer'' = ''integer''" "toLowerCase ''string'' = ''string''"
    "toLowerCase ''String'' = ''string''"
    by code_simp+
  have v: "parseValue ''integer'' (Str ''1,2,3'') True
             = Inr (Arr [Num (Fin 1), Num (Fin 2), Num (Fin 3)])"
    "parseValue ''string'' Undefined False = Inr Undefined"
    "parseValue ''string'' (Str []) False = Inr Undefined"
    by code_simp+
  show ?thesis
    using parseParam_compact [of "''integer''" "Some ''1,2,3''" True, OF _ w(1)]
      parseParam_compact [of "''string''" None False, OF _ w(2)]
      parseParam_compact [of "''String''" "Some []" False, OF _ w(3)]
    by (simp add: l v compact_spec_def)
qed

section \<open>Properties of the endpoint configuration\<close>

text \<open>
  The bitwise operator in the first assignment of the loop yields the number 0 whenever
  both operands are callbacks or unset, so the alternative after \<^verbatim>\<open>||\<close> is taken.
\<close>

lemma js_bitor_unset_hook: "js_or (js_bitor (Val Undefined) (Fn f)) c = c"
  by (simp add: js_or_def js_bitor_def ToInt32_def)

lemma js_bitor_hooks: "js_or (js_bitor (Fn g) (Fn f)) c = c"
  by (simp add: js_or_def js_bitor_def ToInt32_def)

text \<open>
  Claim C4 does not hold of the code. The parameter \<^verbatim>\<open>name\<close> has no error callback of its
  own and the endpoint supplies one (function 1), yet after \<^verbatim>\<open>configure\<close> the parameter
  holds the process-wide error callback (function 2). The validate and success callbacks
  are back-filled as the claim says: validate from the endpoint (function 3), success from
  the process-wide default (function 6).
\<close>

theorem configure_error_hook_from_default_only:
  "configure ex_configuration ''get'' (ApiObject ex_api) (Arr [])
     = Inr (Verifier
         \<lparr>ep_paramOrder = Some [''query'', ''body''], ep_paramMap = ''args'',
          ep_params =
            [(''name'',
              \<lparr>pd_type = ''string'', pd_default = Undefined, pd_required = Bool True,
               pd_array = Bool False, pd_min = None, pd_max = None,
               pd_validate = Fn 3, pd_error = Fn 2, pd_success = Fn 6\<rparr>)],
          ep_version = Undefined, ep_error = Fn 1, ep_validate = Fn 3,
          ep_success = Val Undefined\<rparr>)"
  by code_simp

section \<open>Properties of the validation pipeline\<close>

lemma get_update: "get (AList.update k v obj) p = (if p = k then v else get obj p)"
  by (simp add: get_def update_conv')

subsection \<open>Extraction\<close>

lemma candidates_Nil: "candidates req [] p = []"
  by (simp add: candidates_def)

lemma candidates_Cons:
  "candidates req (n # rest) p =
     (case req n of
        None \<Rightarrow> []
      | Some source \<Rightarrow> (case map_of source p of None \<Rightarrow> [] | Some raw \<Rightarrow> [raw]))
     @ candidates req rest p"
  by (simp add: candidates_def)

lemma reads_undefined_get:
  "p \<notin> set Object_prototype \<Longrightarrow> reads_undefined params p = (get params p = Undefined)"
  by (simp add: reads_undefined_def get_def split: option.splits)

lemma config_param_declared:
  "map_of (ep_params config) p = Some pc \<Longrightarrow>
     config_param config p = Some (pd_type pc, truthy (pd_array pc))"
  by (simp add: config_param_def)

text \<open>
  One source: a declared name, not among the inherited ones, that is still undefined in the
  map and present on the source gets the coerced value of the source; every other name
  keeps its value.
\<close>

lemma getParams_source_declared:
  assumes "map_of (ep_params config) p = Some pc" and "p \<notin> set Object_prototype"
  shows "getParams_source config source ks params = Inr params' \<Longrightarrow>
         (if p \<in> set ks \<and> get params p = Undefined
          then parseValue (pd_type pc) (get source p) (truthy (pd_array pc)) = Inr (get params' p)
          else get params' p = get params p)"
proof (induction ks arbitrary: params)
  case Nil
  then show ?case by simp
next
  case (Cons k ks)
  show ?case
  proof (cases "reads_undefined params k")
    case False
    with Cons.prems have "getParams_source config source ks params = Inr params'"
      by simp
    from Cons.IH [OF this] False assms(2) show ?thesis
      by (auto simp: reads_undefined_get)
  next
    case True
    show ?thesis
    proof (cases "config_param config k")
      case None
      with assms(1) have "k \<noteq> p" by (auto simp: config_param_declared)
      from Cons.prems True None
      have "getParams_source config source ks params = Inr params'" by simp
      from Cons.IH [OF this] \<open>k \<noteq> p\<close> show ?thesis by auto
    next
      case (Some ta)
      obtain t a where ta: "ta = (t, a)" by (cases ta)
      with Cons.prems True Some obtain v where
        v: "parseValue t (get source k) a = Inr v"
        and r: "getParams_source config source ks (AList.update k v params) = Inr params'"
        by (auto split: sum.splits)
      show ?thesis
      proof (cases "k = p")
        case kp: True
        with Some ta assms(1) have "t = pd_type pc" "a = truthy (pd_array pc)"
          by (simp_all add: config_param_declared)
        moreover from True kp assms(2) have "get params p = Undefined"
          by (simp add: reads_undefined_get)
        ultimately show ?thesis
          using Cons.IH [OF r] v kp by (auto simp: get_update split: if_splits)
      next
        case False
        with Cons.IH [OF r] show ?thesis
          by (auto simp: get_update split: if_splits)
      qed
    qed
  qed
qed

text \<open>A new key is a declared name that is not among the inherited ones.\<close>

lemma getParams_source_keys:
  "getParams_source config source ks params = Inr params' \<Longrightarrow>
     p \<in> fst ` set params' \<Longrightarrow>
     p \<in> fst ` set params
     \<or> map_of (ep_params config) p \<noteq> None \<and> p \<notin> set Object_prototype"
proof (induction ks arbitrary: params)
  case Nil
  then show ?case by simp
next
  case (Cons k ks)
  show ?case
  proof (cases "reads_undefined params k")
    case False
    with Cons show ?thesis by simp
  next
    case True
    show ?thesis
    proof (cases "config_param config k")
      case None
      with Cons True show ?thesis by simp
    next
      case (Some ta)
      obtain t a where ta: "ta = (t, a)" by (cases ta)
      with Cons.prems True Some obtain v where
        r: "getParams_source config source ks (AList.update k v params) = Inr params'"
        by (auto split: sum.splits)
      have new: "k \<in> fst ` set params
                 \<or> map_of (ep_params config) k \<noteq> None \<and> k \<notin> set Object_prototype"
      proof (cases "map_of params k")
        case None
        with True have n: "k \<notin> set Object_prototype" by (simp add: reads_undefined_def)
        with Some have "map_of (ep_params config) k \<noteq> None"
          by (auto simp: config_param_def split: option.splits)
        with n show ?thesis by simp
      next
        case (Some x)
        then have "k \<in> fst ` set params"
          by (metis domI dom_map_of_conv_image_fst)
        then show ?thesis by simp
      qed
      from Cons.IH [OF r Cons.prems(2)] new show ?thesis
        by (auto simp: dom_update)
    qed
  qed
qed

lemma getParams_loop_keys:
  "getParams_loop config req props params = Inr params' \<Longrightarrow>
     p \<in> fst ` set params' \<Longrightarrow>
     p \<in> fst ` set params
     \<or> map_of (ep_params config) p \<noteq> None \<and> p \<notin> set Object_prototype"
proof (induction props arbitrary: params)
  case Nil
  then show ?case by simp
next
  case (Cons name rest)
  show ?case
  proof (cases "req name")
    case None
    with Cons show ?thesis by simp
  next
    case (Some source)
    with Cons.prems obtain params1 where
      s: "getParams_source config source (map fst source) params = Inr params1"
      and r: "getParams_loop config req rest params1 = Inr params'"
      by (auto split: sum.splits)
    from Cons.IH [OF r Cons.prems(2)] getParams_source_keys [OF s, of p]
    show ?thesis by auto
  qed
qed

text \<open>
  All sources: a declared name keeps a value it already has, and otherwise ends with the
  first coercion result of its candidates that is not undefined.
\<close>

lemma getParams_loop_declared:
  assumes "map_of (ep_params config) p = Some pc" and "p \<notin> set Object_prototype"
  shows "getParams_loop config req props params = Inr params' \<Longrightarrow>
         (if get params p \<noteq> Undefined then Inr (get params p)
          else first_defined
                 (map (\<lambda>raw. parseValue (pd_type pc) raw (truthy (pd_array pc)))
                    (candidates req props p)))
           = Inr (get params' p)"
proof (induction props arbitrary: params)
  case Nil
  then show ?case by (simp add: candidates_Nil)
next
  case (Cons name rest)
  show ?case
  proof (cases "req name")
    case None
    with Cons.prems have "getParams_loop config req rest params = Inr params'" by simp
    from Cons.IH [OF this] None show ?thesis
      by (auto simp: candidates_Cons split: if_splits)
  next
    case (Some source)
    with Cons.prems obtain params1 where
      s: "getParams_source config source (map fst source) params = Inr params1"
      and r: "getParams_loop config req rest params1 = Inr params'"
      by (auto split: sum.splits)
    note inner = getParams_source_declared [OF assms s]
    note ih = Cons.IH [OF r]
    show ?thesis
    proof (cases "map_of source p")
      case None
      then have "p \<notin> set (map fst source)"
        by (simp add: map_of_eq_None_iff)
      with inner have "get params1 p = get params p" by simp
      with ih Some None show ?thesis
        by (auto simp: candidates_Cons split: if_splits)
    next
      case (Some raw)
      then have m: "p \<in> set (map fst source)" "get source p = raw"
        by (auto simp: get_def dest: map_of_SomeD intro: rev_image_eqI)
      have c: "candidates req (name # rest) p = raw # candidates req rest p"
        using \<open>req name = Some source\<close> Some by (simp add: candidates_Cons)
      show ?thesis
      proof (cases "get params p = Undefined")
        case False
        with inner have "get params1 p = get params p" by simp
        with ih False c show ?thesis by (auto split: if_splits)
      next
        case True
        with inner m
        have "parseValue (pd_type pc) raw (truthy (pd_array pc)) = Inr (get params1 p)"
          by simp
        with ih True c show ?thesis by (auto split: if_splits)
      qed
    qed
  qed
qed

text \<open>
  Claim C7, as amended. When \<^verbatim>\<open>getParams\<close> returns, a name that is not declared in the
  parameter map is not a key of the extracted map, and the value of a declared name (other
  than the names every object inherits) is the first coercion result, over the sources in
  the order of \<^verbatim>\<open>paramOrder\<close> that have the name, that is not undefined, and undefined
  if there is none. So a value that coerces to undefined (an empty string, a number that
  does not parse) is recorded and does not keep a later source from winning, while an
  empty array coerces to the empty array and does.
\<close>

theorem getParams_first_source_wins:
  assumes "getParams config req = Inr params" and "ep_paramOrder config = Some props"
  shows "case map_of (ep_params config) param of
           None \<Rightarrow> param \<notin> fst ` set params
         | Some paramConfig \<Rightarrow>
             param \<notin> set Object_prototype \<longrightarrow>
             first_defined
               (map (\<lambda>raw. parseValue (pd_type paramConfig) raw (truthy (pd_array paramConfig)))
                  (candidates req props param))
               = Inr (get params param)"
proof -
  from assms have l: "getParams_loop config req props [] = Inr params"
    by (simp add: getParams_def)
  show ?thesis
  proof (cases "map_of (ep_params config) param")
    case None
    with getParams_loop_keys [OF l, of param] show ?thesis by auto
  next
    case (Some paramConfig)
    show ?thesis
    proof (cases "param \<in> set Object_prototype")
      case True
      with Some show ?thesis by simp
    next
      case False
      with getParams_loop_declared [OF Some False l] Some show ?thesis
        by (simp add: get_def)
    qed
  qed
qed

theorem getParams_first_source_wins_witness:
  "getParams ex_endpoint ex_request = Inr [(''age'', Num (Fin 42)), (''name'', Str ''Alice'')]
   \<and> ep_paramOrder ex_endpoint = Some [''query'', ''body'']
   \<and> ''age'' \<notin> set Object_prototype
   \<and> candidates ex_request [''query'', ''body''] ''age'' = [Str ''abc'', Str ''42'']
   \<and> first_defined (map (\<lambda>raw. parseValue ''integer'' raw False) [Str ''abc'', Str ''42''])
       = Inr (Num (Fin 42))
   \<and> ''debug'' \<notin> fst ` set [(''age'', Num (Fin 42)), (''name'', Str ''Alice'')]"
proof -
  have g: "getParams ex_endpoint ex_request
             = Inr [(''age'', Num (Fin 42)), (''name'', Str ''Alice'')]"
    by code_simp
  have o: "ep_paramOrder ex_endpoint = Some [''query'', ''body'']"
    by (simp add: ex_endpoint_def)
  have c: "candidates ex_request [''query'', ''body''] ''age'' = [Str ''abc'', Str ''42'']"
    by code_simp
  have n: "''age'' \<notin> set Object_prototype"
    by (simp add: Object_prototype_def)
  have m: "map_of (ep_params ex_endpoint) ''age''
             = Some \<lparr>pd_type = ''integer'', pd_default = Num (Fin 18), pd_required = Bool False,
                    pd_array = Bool False, pd_min = None, pd_max = None,
                    pd_validate = Val Undefined, pd_error = Val Undefined,
                    pd_success = Val Undefined\<rparr>"
    "map_of (ep_params ex_endpoint) ''debug'' = None"
    by (simp_all add: ex_endpoint_def)
  show ?thesis
    using getParams_first_source_wins [OF g o, of "''age''"]
      getParams_first_source_wins [OF g o, of "''debug''"]
    by (simp add: g o c m n get_def)
qed

text \<open>
  Claim C7 as stated fails, in both directions. In the first request the first source that
  defines a non-empty value for \<^verbatim>\<open>age\<close> is the query string, with \<^verbatim>\<open>'abc'\<close>; it coerces
  to undefined, and the value of the body wins. In the second request the first source
  that defines a non-empty value for \<^verbatim>\<open>tags\<close> is the query string, read second; the empty
  array of the body, read first, is recorded and wins.
\<close>

theorem getParams_first_non_empty_loses:
  "getParams ex_endpoint ex_request = Inr [(''age'', Num (Fin 42)), (''name'', Str ''Alice'')]
   \<and> List.find non_empty (candidates ex_request [''query'', ''body''] ''age'')
       = Some (Str ''abc'')
   \<and> parseValue ''integer'' (Str ''abc'') False = Inr Undefined
   \<and> getParams ex_tags ex_tags_request = Inr [(''tags'', Arr [])]
   \<and> List.find non_empty (candidates ex_tags_request [''body'', ''query''] ''tags'')
       = Some (Str ''a,b'')"
  by code_simp

subsection \<open>Validation\<close>

text \<open>The built-in checks of one parameter write under the name of that parameter only.\<close>

lemma map_of_check_max: "p \<noteq> k \<Longrightarrow> map_of (check_max pc k v errors) p = map_of errors p"
  by (simp add: check_max_def update_conv' split: option.splits)

lemma map_of_check_min: "p \<noteq> k \<Longrightarrow> map_of (check_min pc k v errors) p = map_of errors p"
  by (simp add: check_min_def update_conv' split: option.splits)

lemma map_of_fold_bounds:
  "p \<noteq> k \<Longrightarrow>
     map_of (fold (\<lambda>value errors.
                     if truthy value then check_min pc k value (check_max pc k value errors)
                     else errors) vs errors) p
       = map_of errors p"
  by (induction vs arbitrary: errors) (simp_all add: map_of_check_max map_of_check_min)

lemma map_of_builtin_checks:
  "p \<noteq> k \<Longrightarrow> map_of (builtin_checks pc k v errors) p = map_of errors p"
  by (simp add: builtin_checks_def Let_def map_of_fold_bounds update_conv')

lemma checkParams_loop_validator:
  assumes "map_of (ep_params config) param = Some paramConfig"
    and "pd_validate paramConfig = Fn f"
  shows "checkParams_loop call config params ks errors = Inr errors' \<Longrightarrow>
         map_of errors' param =
           (if param \<in> set ks \<and> truthy (call f (get params param) param paramConfig)
            then Some \<lparr>mi_type = pd_type paramConfig,
                       mi_error = call f (get params param) param paramConfig,
                       mi_min = None, mi_max = None\<rparr>
            else map_of errors param)"
proof (induction ks arbitrary: errors)
  case Nil
  then show ?case by simp
next
  case (Cons k ks)
  show ?case
  proof (cases "map_of (ep_params config) k")
    case None
    with assms(1) have "k \<noteq> param" by auto
    with Cons None show ?thesis by simp
  next
    case (Some kc)
    show ?thesis
    proof (cases "k = param")
      case True
      with Some assms have kc: "kc = paramConfig" by simp
      let ?e = "call f (get params param) param paramConfig"
      let ?errors1 = "if truthy ?e
                      then AList.update param \<lparr>mi_type = pd_type paramConfig, mi_error = ?e,
                                          mi_min = None, mi_max = None\<rparr> errors
                      else errors"
      from Cons.prems True Some kc assms(2)
      have "checkParams_loop call config params ks ?errors1 = Inr errors'"
        by (simp add: Let_def)
      from Cons.IH [OF this] True show ?thesis
        by (simp add: update_conv')
    next
      case False
      show ?thesis
      proof (cases "truthy_hook (pd_validate kc)")
        case True
        with Cons.prems Some obtain g where g: "pd_validate kc = Fn g"
          by (cases "pd_validate kc") (auto simp: Let_def)
        let ?e = "call g (get params k) k kc"
        let ?errors1 = "if truthy ?e
                        then AList.update k \<lparr>mi_type = pd_type kc, mi_error = ?e,
                                            mi_min = None, mi_max = None\<rparr> errors
                        else errors"
        from Cons.prems Some g
        have "checkParams_loop call config params ks ?errors1 = Inr errors'"
          by (simp add: Let_def)
        from Cons.IH [OF this] False show ?thesis
          by (simp add: update_conv')
      next
        case nv: False
        with Cons.prems Some
        have "checkParams_loop call config params ks (builtin_checks kc k (get params k) errors)
                = Inr errors'"
          by (simp add: Let_def)
        from Cons.IH [OF this] False show ?thesis
          by (simp add: map_of_builtin_checks)
      qed
    qed
  qed
qed

text \<open>
  Claim C5. When \<^verbatim>\<open>checkParams\<close> returns, the entry of a declared parameter that has a
  validator function is decided by the validator alone: the validator is called with the
  value, the name and the definition; a truthy result is recorded as the error, with the
  type of the parameter and no bound; a falsy result leaves the parameter without an
  entry. The required flag and the bounds of the parameter play no part.
\<close>

theorem checkParams_validator_short_circuits:
  assumes "checkParams call config params = Inr errors"
    and "map_of (ep_params config) param = Some paramConfig"
    and "pd_validate paramConfig = Fn f"
  shows "map_of errors param =
           (if truthy (call f (get params param) param paramConfig)
            then Some \<lparr>mi_type = pd_type paramConfig,
                       mi_error = call f (get params param) param paramConfig,
                       mi_min = None, mi_max = None\<rparr>
            else None)"
proof -
  have "param \<in> set (map fst (ep_params config))"
    using assms(2) by (metis map_of_SomeD fst_conv image_eqI set_map)
  with checkParams_loop_validator
         [OF assms(2,3), of call params "map fst (ep_params config)" "[]" errors]
    assms(1)
  show ?thesis by (simp add: checkParams_def)
qed

text \<open>
  In the example \<^verbatim>\<open>name\<close> is within its bounds and reports the message of its validator,
  \<^verbatim>\<open>nick\<close> is required and missing and reports nothing, and \<^verbatim>\<open>city\<close>, without a
  validator, reports the violated bound.
\<close>

theorem checkParams_validator_short_circuits_witness:
  "checkParams ex_validators ex_validated [(''name'', Str ''abcd''), (''city'', Str ''ab'')]
     = Inr [(''name'', \<lparr>mi_type = ''string'', mi_error = Str ''bad name'',
                        mi_min = None, mi_max = None\<rparr>),
            (''city'', \<lparr>mi_type = ''string'', mi_error = Str ''value below min value'',
                        mi_min = Some (Fin 3), mi_max = None\<rparr>)]
   \<and> map_of [(''name'', \<lparr>mi_type = ''string'', mi_error = Str ''bad name'',
                        mi_min = None, mi_max = None\<rparr>),
            (''city'', \<lparr>mi_type = ''string'', mi_error = Str ''value below min value'',
                        mi_min = Some (Fin 3), mi_max = None\<rparr>)] ''nick'' = None"
proof -
  have c: "checkParams ex_validators ex_validated [(''name'', Str ''abcd''), (''city'', Str ''ab'')]
     = Inr [(''name'', \<lparr>mi_type = ''string'', mi_error = Str ''bad name'',
                        mi_min = None, mi_max = None\<rparr>),
            (''city'', \<lparr>mi_type = ''string'', mi_error = Str ''value below min value'',
                        mi_min = Some (Fin 3), mi_max = None\<rparr>)]"
    by code_simp
  have n: "map_of (ep_params ex_validated) ''name''
             = Some \<lparr>pd_type = ''string'', pd_default = Undefined, pd_required = Bool True,
                     pd_array = Bool False, pd_min = Some (Fin 3), pd_max = Some (Fin 10),
                     pd_validate = Fn 0, pd_error = Val Undefined,
                     pd_success = Val Undefined\<rparr>"
    by (simp add: ex_validated_def)
  have k: "map_of (ep_params ex_validated) ''nick''
             = Some \<lparr>pd_type = ''string'', pd_default = Undefined, pd_required = Bool True,
                     pd_array = Bool False, pd_min = Some (Fin 3), pd_max = None,
                     pd_validate = Fn 1, pd_error = Val Undefined,
                     pd_success = Val Undefined\<rparr>"
    by (simp add: ex_validated_def)
  show ?thesis
    using checkParams_validator_short_circuits [OF c n]
      checkParams_validator_short_circuits [OF c k]
    by (simp add: c)
qed

subsection \<open>Filling defaults\<close>

lemma get_fillParams_step:
  "get (fillParams_step config k params) p =
     (case map_of (ep_params config) k of
        None \<Rightarrow> get params p
      | Some pc \<Rightarrow> if p = k \<and> get params k = Undefined then pd_default pc else get params p)"
  by (auto simp: fillParams_step_def get_update split: option.splits)

lemma get_fold_fillParams_step:
  "get (fold (fillParams_step config) ks params) p =
     (case map_of (ep_params config) p of
        None \<Rightarrow> get params p
      | Some pc \<Rightarrow> if p \<in> set ks \<and> get params p = Undefined then pd_default pc else get params p)"
proof (induction ks arbitrary: params)
  case Nil
  then show ?case by (simp split: option.splits)
next
  case (Cons k ks)
  show ?case
    by (auto simp: Cons.IH get_fillParams_step split: option.splits)
qed

lemma keys_fillParams_step:
  "fst ` set params \<subseteq> fst ` set (fillParams_step config k params)"
  by (auto simp: fillParams_step_def dom_update split: option.splits)

lemma keys_fold_fillParams_step:
  "fst ` set params \<subseteq> fst ` set (fold (fillParams_step config) ks params)"
proof (induction ks arbitrary: params)
  case Nil
  then show ?case by simp
next
  case (Cons k ks)
  have "fst ` set params \<subseteq> fst ` set (fillParams_step config k params)"
    by (rule keys_fillParams_step)
  also have "\<dots> \<subseteq> fst ` set (fold (fillParams_step config) ks (fillParams_step config k params))"
    by (rule Cons.IH)
  finally show ?case by simp
qed

lemma present_fillParams_step:
  "map_of (ep_params config) k = Some pc \<Longrightarrow>
     k \<in> fst ` set (fillParams_step config k params) \<or> get params k \<noteq> Undefined"
  by (auto simp: fillParams_step_def dom_update)

lemma present_fold_fillParams_step:
  assumes "k \<in> set ks" and "map_of (ep_params config) k = Some pc"
  shows "k \<in> fst ` set (fold (fillParams_step config) ks params) \<or> get params k \<noteq> Undefined"
  using assms(1)
proof (induction ks arbitrary: params)
  case Nil
  then show ?case by simp
next
  case (Cons a ks)
  show ?case
  proof (cases "a = k")
    case True
    then show ?thesis
      using present_fillParams_step [OF assms(2), of params]
        keys_fold_fillParams_step [of "fillParams_step config k params" config ks]
      by auto
  next
    case False
    with Cons.prems have "k \<in> set ks" by simp
    from Cons.IH [OF this, of "fillParams_step config a params"] False
    show ?thesis by (auto simp: get_fillParams_step split: option.splits)
  qed
qed

text \<open>After the loop, the step of any of its names changes nothing.\<close>

lemma fillParams_step_fixed:
  assumes "k \<in> set ks"
  shows "fillParams_step config k (fold (fillParams_step config) ks params)
           = fold (fillParams_step config) ks params"
proof (cases "map_of (ep_params config) k")
  case None
  then show ?thesis by (simp add: fillParams_step_def)
next
  case (Some pc)
  let ?F = "fold (fillParams_step config) ks params"
  show ?thesis
  proof (cases "get ?F k = Undefined")
    case False
    with Some show ?thesis by (simp add: fillParams_step_def)
  next
    case True
    have g: "get ?F k = (if get params k = Undefined then pd_default pc else get params k)"
      using assms Some by (simp add: get_fold_fillParams_step)
    with True have u: "get params k = Undefined" "pd_default pc = Undefined"
      by (auto split: if_splits)
    with present_fold_fillParams_step [OF assms Some, of params]
    have "k \<in> fst ` set ?F" by simp
    then obtain v where v: "map_of ?F k = Some v"
      by (metis domD dom_map_of_conv_image_fst)
    with True have "v = Undefined" by (simp add: get_def)
    with v u have "AList.update k (pd_default pc) ?F = ?F"
      by (simp add: update_triv)
    with Some True show ?thesis by (simp add: fillParams_step_def)
  qed
qed

lemma fold_fixed: "(\<And>k. k \<in> set ks \<Longrightarrow> f k x = x) \<Longrightarrow> fold f ks x = x"
  by (induction ks) simp_all

text \<open>
  Claim C9. \<^verbatim>\<open>fillParams\<close> is idempotent, and what it does to the map is this: a declared
  parameter whose value is undefined gets the default of its definition, and every other
  name reads as before.
\<close>

theorem fillParams_idempotent:
  "fillParams config (fillParams config params) = fillParams config params
   \<and> get (fillParams config params) p =
       (case map_of (ep_params config) p of
          None \<Rightarrow> get params p
        | Some pc \<Rightarrow> if get params p = Undefined then pd_default pc else get params p)"
proof -
  have 1: "fillParams config (fillParams config params) = fillParams config params"
    unfolding fillParams_def by (rule fold_fixed) (rule fillParams_step_fixed)
  have "map_of (ep_params config) p = Some pc \<Longrightarrow> p \<in> set (map fst (ep_params config))" for pc
    by (metis map_of_SomeD fst_conv image_eqI set_map)
  then have 2: "get (fillParams config params) p =
       (case map_of (ep_params config) p of
          None \<Rightarrow> get params p
        | Some pc \<Rightarrow> if get params p = Undefined then pd_default pc else get params p)"
    by (simp add: fillParams_def get_fold_fillParams_step split: option.splits)
  show ?thesis using 1 2 by simp
qed

subsection \<open>Rejection\<close>

text \<open>
  Claim C6. When extraction succeeds, \<^verbatim>\<open>checkParams\<close> returns a non-empty error mapping
  and the configuration has no error callback, \<^verbatim>\<open>verify\<close> responds with status 422 in
  every runtime mode; the body is the object with the message
  \<^verbatim>\<open>'Required parameters are missing'\<close> and the error mapping exactly when
  \<^verbatim>\<open>NODE_ENV\<close> is \<^verbatim>\<open>'development'\<close>, and \<^verbatim>\<open>null\<close> otherwise.
\<close>

theorem verify_reject_422:
  assumes "getParams config req = Inr params"
    and "checkParams call config params = Inr missing"
    and "missing \<noteq> []"
    and "\<not> truthy_hook (ep_error config)"
  shows "verify call NODE_ENV (Some config) req =
           Respond (if NODE_ENV = Some ''development''
                    then Some \<lparr>body_error = ''Required parameters are missing'',
                               body_params = missing\<rparr>
                    else None) 422"
  using assms by (simp add: verify_def)

theorem verify_reject_422_witness:
  "verify no_validators (Some ''development'') (Some ex_endpoint) ex_request_no_name
     = Respond (Some \<lparr>body_error = ''Required parameters are missing'',
                      body_params = [(''name'', \<lparr>mi_type = ''string'', mi_error = Str ''not set'',
                                                 mi_min = None, mi_max = None\<rparr>)]\<rparr>) 422
   \<and> verify no_validators (Some ''production'') (Some ex_endpoint) ex_request_no_name
     = Respond None 422
   \<and> verify no_validators None (Some ex_endpoint) ex_request_no_name = Respond None 422"
proof -
  have g: "getParams ex_endpoint ex_request_no_name = Inr [(''age'', Num (Fin 30))]"
    by code_simp
  have c: "checkParams no_validators ex_endpoint [(''age'', Num (Fin 30))]
             = Inr [(''name'', \<lparr>mi_type = ''string'', mi_error = Str ''not set'',
                                mi_min = None, mi_max = None\<rparr>)]"
    by code_simp
  have n: "[(''name'', \<lparr>mi_type = ''string'', mi_error = Str ''not set'',
                        mi_min = None, mi_max = None\<rparr>)] \<noteq> []"
    by simp
  have e: "\<not> truthy_hook (ep_error ex_endpoint)"
    by (simp add: ex_endpoint_def)
  show ?thesis
    using verify_reject_422 [OF g c n e, of "Some ''development''"]
      verify_reject_422 [OF g c n e, of "Some ''production''"]
      verify_reject_422 [OF g c n e, of None]
    by simp
qed

end
